theory Spec2Isabelle
  imports Complex_Main
begin

section \<open>Exceptions and the outside world\<close>

text \<open>
  Python exceptions are values. The handlers of the program tell \<open>HttpError\<close> from every
  other \<open>Exception\<close>, nothing else; \<open>AllRetriesFailed n\<close> is the exception
  \<^verbatim>\<open>Exception(f"All {max_retries} retry attempts failed")\<close> of
  \<open>retry_with_exponential_backoff\<close>.
\<close>

datatype exn = Exception string | HttpError string | AllRetriesFailed int

text \<open>The two background threads of the service.\<close>

datatype thread = Error_flash_thread | Heartbeat_thread

text \<open>
  The calls of the program into the standard library. The world \<open>'w\<close> is whatever they act on;
  every theorem below holds for every world and every behaviour of these calls.
  A finite Python float is the real number it denotes; where the program computes with
  floats in a way that shows (the backoff delay), the rounding and the overflow are written
  out.
\<close>

record 'w os =
  random_uniform :: "'w \<Rightarrow> real \<times> 'w"   \<comment> \<open>\<^verbatim>\<open>random.uniform(0, 1)\<close>\<close>
  time_sleep :: "real \<Rightarrow> 'w \<Rightarrow> 'w"
    \<comment> \<open>\<^verbatim>\<open>time.sleep(d)\<close> for \<open>0 \<le> d \<le> sleep_limit\<close>\<close>
  time_time :: "'w \<Rightarrow> real"                \<comment> \<open>\<^verbatim>\<open>time.time()\<close>\<close>
  utcnow :: "'w \<Rightarrow> real"                   \<comment> \<open>\<^verbatim>\<open>datetime.utcnow()\<close>, in seconds\<close>
  now_second :: "'w \<Rightarrow> real"
    \<comment> \<open>\<^verbatim>\<open>now.second + now.microsecond / 1000000\<close> of \<^verbatim>\<open>datetime.now()\<close>\<close>
  create_connection :: "'w \<Rightarrow> bool \<times> 'w"
    \<comment> \<open>\<^verbatim>\<open>socket.create_connection(("8.8.8.8", 53))\<close>: True when it does not raise\<close>
  is_alive :: "thread \<Rightarrow> 'w \<Rightarrow> bool"        \<comment> \<open>\<^verbatim>\<open>Thread.is_alive()\<close>\<close>
  thread_start :: "thread \<Rightarrow> 'w \<Rightarrow> 'w"      \<comment> \<open>\<^verbatim>\<open>Thread.start()\<close>\<close>
  thread_join :: "thread \<Rightarrow> 'w \<Rightarrow> 'w"       \<comment> \<open>\<^verbatim>\<open>Thread.join(timeout=2)\<close>\<close>
  sleep_limit :: real
    \<comment> \<open>the longest delay \<^verbatim>\<open>time.sleep\<close> converts to the clock of the platform\<close>

text \<open>
  \<^verbatim>\<open>time.sleep\<close> raises \<open>ValueError\<close> on a negative argument and \<open>OverflowError\<close> on one too
  large for the clock of the platform.
\<close>

definition sleep :: "'w os \<Rightarrow> real \<Rightarrow> 'w \<Rightarrow> (exn + unit) \<times> 'w" where
  "sleep E d w =
     (if d < 0 then (Inl (Exception ''sleep length must be non-negative''), w)
      else if sleep_limit E < d then (Inl (Exception ''timestamp too large to convert''), w)
      else (Inr (), time_sleep E d w))"

section \<open>NetworkUtils\<close>

subsection \<open>retry_with_exponential_backoff\<close>

text \<open>
  The double nearest to a real number, ties to even. \<open>pow2 e\<close> is the power of two of
  exponent \<open>e\<close>; \<open>exponent n a\<close> is the exponent of the binade of \<open>a > 0\<close>, searched from
  \<open>n - 1022\<close> down to the exponent \<open>- 1022\<close> of the subnormal numbers. A double has 53
  significant bits and an exponent of 1023 at most: where the result of rounding is
  \<open>2 ^ 1024\<close> or more, the float is \<open>inf\<close>.
\<close>

definition pow2 :: "int \<Rightarrow> real" where
  "pow2 e = (if 0 \<le> e then 2 ^ nat e else 1 / 2 ^ nat (- e))"

fun exponent :: "nat \<Rightarrow> real \<Rightarrow> int" where
  "exponent 0 a = - 1022"
| "exponent (Suc n) a =
     (if pow2 (int (Suc n) - 1022) \<le> a then int (Suc n) - 1022 else exponent n a)"

definition double_round :: "real \<Rightarrow> real" where
  "double_round x =
     (if x = 0 then 0
      else
        let e = exponent 2045 \<bar>x\<bar>;
            u = pow2 (e - 52);
            q = x / u;
            f = \<lfloor>q\<rfloor>;
            n = (if q - of_int f < 1 / 2 then f
                 else if 1 / 2 < q - of_int f then f + 1
                 else if even f then f else f + 1)
        in of_int n * u)"

text \<open>
  The float \<^verbatim>\<open>min(initial_delay * (2 ** attempt) + j, max_delay)\<close> for \<open>attempt < 1024\<close>, where
  the integer \<open>2 ** attempt\<close> converts to a float. The product of a double and a power of two
  is exact, the sum is rounded; a sum that has become \<open>inf\<close> leaves \<open>max_delay\<close>.
\<close>

definition backoff_delay :: "real \<Rightarrow> real \<Rightarrow> nat \<Rightarrow> real \<Rightarrow> real" where
  "backoff_delay initial_delay max_delay attempt j =
     (let s = double_round (initial_delay * 2 ^ attempt + j)
      in if 2 ^ 1024 \<le> s then max_delay else min s max_delay)"

text \<open>
  What a run of the retry loop does, in order: an invocation of \<open>func\<close>, or a sleep.
\<close>

datatype retry_event = Call | Sleep real

text \<open>
  \<open>func\<close> is a closure over an object \<open>'c\<close> (the \<open>self\<close> it captures) acting on the world.
  The loop \<^verbatim>\<open>for attempt in range(max_retries)\<close> is the recursion over the list of attempts;
  falling out of the loop raises \<open>AllRetriesFailed\<close>. From attempt 1024 on, the product
  \<^verbatim>\<open>initial_delay * (2 ** attempt)\<close> raises \<open>OverflowError\<close>, before the jitter is drawn: the
  integer does not convert to a float. As any exception raised inside the handler, it
  leaves the function.
\<close>

fun retry_loop ::
  "'w os \<Rightarrow> ('c \<Rightarrow> 'w \<Rightarrow> (exn + 'a) \<times> 'c \<times> 'w) \<Rightarrow> int \<Rightarrow> real \<Rightarrow> real \<Rightarrow> nat list \<Rightarrow>
   'c \<Rightarrow> 'w \<Rightarrow> (exn + 'a) \<times> 'c \<times> 'w \<times> retry_event list" where
  "retry_loop E func max_retries initial_delay max_delay [] c w =
     (Inl (AllRetriesFailed max_retries), c, w, [])"
| "retry_loop E func max_retries initial_delay max_delay (attempt # rest) c w =
     (case func c w of
        (Inr v, c1, w1) \<Rightarrow> (Inr v, c1, w1, [Call])
      | (Inl e, c1, w1) \<Rightarrow>
          if int attempt = max_retries - 1 then (Inl e, c1, w1, [Call])
          else if 1024 \<le> attempt then
            (Inl (Exception ''int too large to convert to float''), c1, w1, [Call])
          else
            (case random_uniform E w1 of (j, w2) \<Rightarrow>
               let delay = backoff_delay initial_delay max_delay attempt j in
               (case sleep E delay w2 of
                  (Inl e', w3) \<Rightarrow> (Inl e', c1, w3, [Call])
                | (Inr u, w3) \<Rightarrow>
                    (case retry_loop E func max_retries initial_delay max_delay rest c1 w3 of
                       (r, c4, w4, tr) \<Rightarrow> (r, c4, w4, Call # Sleep delay # tr)))))"

definition retry_with_exponential_backoff ::
  "'w os \<Rightarrow> ('c \<Rightarrow> 'w \<Rightarrow> (exn + 'a) \<times> 'c \<times> 'w) \<Rightarrow> int \<Rightarrow> real \<Rightarrow> real \<Rightarrow>
   'c \<Rightarrow> 'w \<Rightarrow> (exn + 'a) \<times> 'c \<times> 'w \<times> retry_event list" where
  "retry_with_exponential_backoff E func max_retries initial_delay max_delay c w =
     retry_loop E func max_retries initial_delay max_delay [0..<nat max_retries] c w"







text \<open>
  A world for concrete runs that records, in order, the commands the device receives and
  the threads started and joined.
\<close>

datatype io = Sent bool | Started thread | Joined thread


text \<open>
  An operating system for concrete runs: the jitter is always a half, the clocks stand
  still, the network is up and no thread is alive.
\<close>

definition quiet_os :: "unit os" where
  "quiet_os = \<lparr> random_uniform = (\<lambda>w. (1 / 2, w)), time_sleep = (\<lambda>d w. w),
     time_time = (\<lambda>w. 1000), utcnow = (\<lambda>w. 1000), now_second = (\<lambda>w. 30),
     create_connection = (\<lambda>w. (True, w)), is_alive = (\<lambda>t w. False),
     thread_start = (\<lambda>t w. w), thread_join = (\<lambda>t w. w), sleep_limit = 9223372036 \<rparr>"


text \<open>
  The same on the recording world: a thread is alive once started and until joined.
\<close>

definition recording_os :: "io list os" where
  "recording_os = \<lparr> random_uniform = (\<lambda>w. (1 / 2, w)), time_sleep = (\<lambda>d w. w),
     time_time = (\<lambda>w. 1000), utcnow = (\<lambda>w. 1000), now_second = (\<lambda>w. 30),
     create_connection = (\<lambda>w. (True, w)),
     is_alive = (\<lambda>t w. Started t \<in> set w \<and> Joined t \<notin> set w),
     thread_start = (\<lambda>t w. w @ [Started t]), thread_join = (\<lambda>t w. w @ [Joined t]),
     sleep_limit = 9223372036 \<rparr>"


section \<open>TuyaController\<close>

text \<open>
  The calls into \<open>tinytuya\<close>. A cloud status is the pair of the truth of
  \<^verbatim>\<open>status.get('success')\<close> and the list \<^verbatim>\<open>status.get('result')\<close> (empty when absent) of
  items, each with its \<^verbatim>\<open>code\<close> and its \<^verbatim>\<open>value\<close>. A local status is \<open>None\<close> without the key
  \<^verbatim>\<open>'dps'\<close>, \<open>Some None\<close> without \<^verbatim>\<open>'1'\<close> in it, and \<open>Some (Some b)\<close> with the switch at \<open>b\<close>.
\<close>

type_synonym cloud_status = "bool \<times> (string option \<times> bool option) list"

record 'w tuya_api =
  Cloud :: "'w \<Rightarrow> (exn + unit) \<times> 'w"                 \<comment> \<open>\<^verbatim>\<open>tinytuya.Cloud(...)\<close>\<close>
  getstatus :: "'w \<Rightarrow> (exn + cloud_status) \<times> 'w"     \<comment> \<open>\<^verbatim>\<open>cloud.getstatus(device_id)\<close>\<close>
  sendcommand :: "bool \<Rightarrow> 'w \<Rightarrow> (exn + bool) \<times> 'w"
    \<comment> \<open>\<^verbatim>\<open>cloud.sendcommand(...)\<close> with the switch value: the truth of \<^verbatim>\<open>result.get('success')\<close>\<close>
  OutletDevice :: "'w \<Rightarrow> (exn + unit) \<times> 'w"
    \<comment> \<open>\<^verbatim>\<open>tinytuya.OutletDevice(...)\<close> and \<^verbatim>\<open>set_version\<close>\<close>
  status :: "'w \<Rightarrow> (exn + bool option option) \<times> 'w"  \<comment> \<open>\<^verbatim>\<open>device.status()\<close>\<close>
  set_status :: "bool \<Rightarrow> 'w \<Rightarrow> (exn + bool) \<times> 'w"
    \<comment> \<open>\<^verbatim>\<open>device.set_status(state, '1')\<close>: the truth of \<^verbatim>\<open>'Error' not in str(result)\<close>\<close>

text \<open>
  The fields of the controller that change. \<open>cloud\<close> and \<open>device\<close> say whether the handle
  is set (not \<open>None\<close>).
\<close>

record tuya =
  cloud :: bool
  device :: bool
  last_state :: "bool option"
  connection_verified :: bool
  last_successful_connection :: "real option"
  use_cloud_api :: bool

text \<open>The state \<^verbatim>\<open>__init__\<close> leaves.\<close>

definition tuya_init :: tuya where
  "tuya_init = \<lparr> cloud = False, device = False, last_state = None,
     connection_verified = False, last_successful_connection = None, use_cloud_api = True \<rparr>"

text \<open>The loop of \<open>_connect\<close> over the result items: the value of the first item with code \<open>switch\<close>.\<close>

fun switch_status :: "(string option \<times> bool option) list \<Rightarrow> bool option" where
  "switch_status [] = None"
| "switch_status ((code, val) # items) =
     (if code = Some ''switch'' then val else switch_status items)"

text \<open>The closure \<open>_connect\<close> of \<open>connect\<close>.\<close>

definition connect_func :: "'w tuya_api \<Rightarrow> 'w os \<Rightarrow> tuya \<Rightarrow> 'w \<Rightarrow> (exn + bool) \<times> tuya \<times> 'w" where
  "connect_func T E c w =
     (if use_cloud_api c then
        (case Cloud T w of
           (Inl e, w1) \<Rightarrow> (Inl e, c, w1)
         | (Inr u, w1) \<Rightarrow>
             let c1 = c\<lparr>cloud := True\<rparr> in
             (case getstatus T w1 of
                (Inl e, w2) \<Rightarrow> (Inl e, c1, w2)
              | (Inr (success, result), w2) \<Rightarrow>
                  if success \<and> result \<noteq> [] then
                    (case switch_status result of
                       Some v \<Rightarrow>
                         (Inr True,
                          c1\<lparr>connection_verified := True, last_state := Some v,
                             last_successful_connection := Some (time_time E w2)\<rparr>, w2)
                     | None \<Rightarrow>
                         (Inl (Exception ''Switch status not found in cloud response''), c1, w2))
                  else (Inl (Exception ''Invalid cloud device status''), c1, w2)))
      else
        (case OutletDevice T w of
           (Inl e, w1) \<Rightarrow> (Inl e, c, w1)
         | (Inr u, w1) \<Rightarrow>
             let c1 = c\<lparr>device := True\<rparr> in
             (case status T w1 of
                (Inl e, w2) \<Rightarrow> (Inl e, c1, w2)
              | (Inr (Some (Some v)), w2) \<Rightarrow>
                  (Inr True,
                   c1\<lparr>connection_verified := True, last_state := Some v,
                      last_successful_connection := Some (time_time E w2)\<rparr>, w2)
              | (Inr _, w2) \<Rightarrow>
                  (Inl (Exception ''Invalid device status''),
                   c1\<lparr>connection_verified := False\<rparr>, w2))))"

definition connect :: "'w tuya_api \<Rightarrow> 'w os \<Rightarrow> tuya \<Rightarrow> 'w \<Rightarrow> bool \<times> tuya \<times> 'w" where
  "connect T E c w =
     (case retry_with_exponential_backoff E (connect_func T E) 3 1 60 c w of
        (Inr r, c1, w1, tr) \<Rightarrow> (r, c1, w1)
      | (Inl e, c1, w1, tr) \<Rightarrow> (False, c1\<lparr>connection_verified := False\<rparr>, w1))"

text \<open>
  The test of \<open>ensure_connection\<close> for reconnecting at once:
  \<^verbatim>\<open>not self.connection_verified or not self.last_successful_connection or
  time.time() - self.last_successful_connection > 300\<close>. A float is false when it is 0.
\<close>

definition needs_reconnect :: "tuya \<Rightarrow> real \<Rightarrow> bool" where
  "needs_reconnect c now =
     (\<not> connection_verified c \<or>
      (case last_successful_connection c of
         None \<Rightarrow> True
       | Some t \<Rightarrow> t = 0 \<or> now - t > 300))"

text \<open>The rest of \<open>ensure_connection\<close>: the test of the existing connection.\<close>

definition test_connection :: "'w tuya_api \<Rightarrow> 'w os \<Rightarrow> tuya \<Rightarrow> 'w \<Rightarrow> bool \<times> tuya \<times> 'w" where
  "test_connection T E c w =
     (if use_cloud_api c \<and> cloud c then
        (case getstatus T w of
           (Inl e, w1) \<Rightarrow> connect T E c w1
         | (Inr (success, result), w1) \<Rightarrow>
             if success then (True, c\<lparr>last_successful_connection := Some (time_time E w1)\<rparr>, w1)
             else connect T E c w1)
      else if device c then
        (case status T w of
           (Inl e, w1) \<Rightarrow> connect T E c w1
         | (Inr None, w1) \<Rightarrow> connect T E c w1
         | (Inr (Some dps), w1) \<Rightarrow>
             (True, c\<lparr>last_successful_connection := Some (time_time E w1)\<rparr>, w1))
      else connect T E c w)"

definition ensure_connection :: "'w tuya_api \<Rightarrow> 'w os \<Rightarrow> tuya \<Rightarrow> 'w \<Rightarrow> bool \<times> tuya \<times> 'w" where
  "ensure_connection T E c w =
     (if needs_reconnect c (time_time E w) then connect T E c w
      else test_connection T E c w)"

text \<open>
  The closure \<open>_set_state\<close> of \<open>set_state\<close>. With no cloud handle in use and no device,
  \<^verbatim>\<open>self.device.set_status\<close> raises \<open>AttributeError\<close> on \<open>None\<close>.
\<close>

definition set_state_func :: "'w tuya_api \<Rightarrow> bool \<Rightarrow> tuya \<Rightarrow> 'w \<Rightarrow> (exn + bool) \<times> tuya \<times> 'w" where
  "set_state_func T state c w =
     (if use_cloud_api c \<and> cloud c then
        (case sendcommand T state w of
           (Inl e, w1) \<Rightarrow> (Inl e, c, w1)
         | (Inr success, w1) \<Rightarrow>
             if success then (Inr True, c\<lparr>last_state := Some state\<rparr>, w1)
             else (Inl (Exception ''Cloud device returned error''), c, w1))
      else if \<not> device c then
        (Inl (Exception ''NoneType object has no attribute set_status''), c, w)
      else
        (case set_status T state w of
           (Inl e, w1) \<Rightarrow> (Inl e, c, w1)
         | (Inr ok, w1) \<Rightarrow>
             if ok then (Inr True, c\<lparr>last_state := Some state\<rparr>, w1)
             else (Inl (Exception ''Local device returned error''), c, w1)))"

definition set_state :: "'w tuya_api \<Rightarrow> 'w os \<Rightarrow> bool \<Rightarrow> tuya \<Rightarrow> 'w \<Rightarrow> bool \<times> tuya \<times> 'w" where
  "set_state T E state c w =
     (case ensure_connection T E c w of
        (False, c1, w1) \<Rightarrow> (False, c1, w1)
      | (True, c1, w1) \<Rightarrow>
          (case retry_with_exponential_backoff E (set_state_func T state) 3 1 60 c1 w1 of
             (Inr r, c2, w2, tr) \<Rightarrow> (r, c2, w2)
           | (Inl e, c2, w2, tr) \<Rightarrow> (False, c2\<lparr>connection_verified := False\<rparr>, w2)))"

text \<open>
  What \<open>flash\<close> does, in order: a call \<open>set_state(state)\<close> with what it returned, or a sleep.
\<close>

datatype flash_event = Set_state bool bool | Wait real

text \<open>
  The loop \<^verbatim>\<open>for i in range(times)\<close> of \<open>flash\<close>. It returns False where \<open>flash\<close> returns
  False from inside the loop: a call of \<open>set_state\<close> that fails, or the exception of a
  sleep, which the handler of \<open>flash\<close> turns into False.
\<close>

fun flash_loop ::
  "'w tuya_api \<Rightarrow> 'w os \<Rightarrow> real \<Rightarrow> nat list \<Rightarrow> tuya \<Rightarrow> 'w \<Rightarrow>
   bool \<times> tuya \<times> 'w \<times> flash_event list" where
  "flash_loop T E duration [] c w = (True, c, w, [])"
| "flash_loop T E duration (i # rest) c w =
     (case set_state T E True c w of
        (False, c1, w1) \<Rightarrow> (False, c1, w1, [Set_state True False])
      | (True, c1, w1) \<Rightarrow>
          (case sleep E duration w1 of
             (Inl e, w2) \<Rightarrow> (False, c1, w2, [Set_state True True])
           | (Inr u, w2) \<Rightarrow>
               (case set_state T E False c1 w2 of
                  (False, c2, w3) \<Rightarrow>
                    (False, c2, w3, [Set_state True True, Wait duration, Set_state False False])
                | (True, c2, w3) \<Rightarrow>
                    (case sleep E duration w3 of
                       (Inl e, w4) \<Rightarrow>
                         (False, c2, w4,
                          [Set_state True True, Wait duration, Set_state False True])
                     | (Inr u, w4) \<Rightarrow>
                         (case flash_loop T E duration rest c2 w4 of
                            (r, c3, w5, tr) \<Rightarrow>
                              (r, c3, w5,
                               Set_state True True # Wait duration #
                               Set_state False True # Wait duration # tr))))))"

definition flash ::
  "'w tuya_api \<Rightarrow> 'w os \<Rightarrow> int \<Rightarrow> real \<Rightarrow> tuya \<Rightarrow> 'w \<Rightarrow> bool \<times> tuya \<times> 'w \<times> flash_event list" where
  "flash T E ntimes duration c w =
     (if \<not> (cloud c \<or> device c) then (False, c, w, [])
      else
        let original_state = last_state c in
        (case flash_loop T E duration [0..<nat ntimes] c w of
           (False, c1, w1, tr) \<Rightarrow> (False, c1, w1, tr)
         | (True, c1, w1, tr) \<Rightarrow>
             (case original_state of
                None \<Rightarrow> (True, c1, w1, tr)
              | Some b \<Rightarrow>
                  (case set_state T E b c1 w1 of
                     (r, c2, w2) \<Rightarrow> (True, c2, w2, tr @ [Set_state b r])))))"

text \<open>The states passed to \<open>set_state\<close> in a trace, and what the calls returned.\<close>

fun set_state_calls :: "flash_event list \<Rightarrow> bool list" where
  "set_state_calls [] = []"
| "set_state_calls (Set_state b r # tr) = b # set_state_calls tr"
| "set_state_calls (Wait d # tr) = set_state_calls tr"

fun set_state_results :: "flash_event list \<Rightarrow> bool list" where
  "set_state_results [] = []"
| "set_state_results (Set_state b r # tr) = r # set_state_results tr"
| "set_state_results (Wait d # tr) = set_state_results tr"

text \<open>\<open>n\<close> pairs of on and off.\<close>

fun toggles :: "nat \<Rightarrow> bool list" where
  "toggles 0 = []"
| "toggles (Suc n) = True # False # toggles n"

text \<open>
  Issuing the states of a list to \<open>set_state\<close>, in order, each call on the controller and
  the world the one before it left, with a sleep of \<open>d\<close> after each call that returns True,
  up to the first call that returns False.
\<close>

fun issue_in_order ::
  "'w tuya_api \<Rightarrow> 'w os \<Rightarrow> real \<Rightarrow> bool list \<Rightarrow> tuya \<Rightarrow> 'w \<Rightarrow>
   bool \<times> tuya \<times> 'w \<times> flash_event list" where
  "issue_in_order T E d [] c w = (True, c, w, [])"
| "issue_in_order T E d (b # bs) c w =
     (case set_state T E b c w of
        (False, c1, w1) \<Rightarrow> (False, c1, w1, [Set_state b False])
      | (True, c1, w1) \<Rightarrow>
          (case issue_in_order T E d bs c1 (time_sleep E d w1) of
             (r, c2, w2, tr) \<Rightarrow> (r, c2, w2, Set_state b True # Wait d # tr)))"

text \<open>A device behind the cloud API that answers every call, and one that answers none.\<close>

definition good_tuya :: "'w tuya_api" where
  "good_tuya = \<lparr> Cloud = (\<lambda>w. (Inr (), w)),
     getstatus = (\<lambda>w. (Inr (True, [(Some ''switch'', Some False)]), w)),
     sendcommand = (\<lambda>b w. (Inr True, w)),
     OutletDevice = (\<lambda>w. (Inr (), w)),
     status = (\<lambda>w. (Inr (Some (Some False)), w)),
     set_status = (\<lambda>b w. (Inr True, w)) \<rparr>"

definition dead_tuya :: "'w tuya_api" where
  "dead_tuya = \<lparr> Cloud = (\<lambda>w. (Inr (), w)),
     getstatus = (\<lambda>w. (Inl (Exception ''timed out''), w)),
     sendcommand = (\<lambda>b w. (Inl (Exception ''timed out''), w)),
     OutletDevice = (\<lambda>w. (Inr (), w)),
     status = (\<lambda>w. (Inl (Exception ''timed out''), w)),
     set_status = (\<lambda>b w. (Inl (Exception ''timed out''), w)) \<rparr>"

text \<open>A device behind the cloud API that answers every call and records each command.\<close>

definition recording_tuya :: "io list tuya_api" where
  "recording_tuya = good_tuya\<lparr>sendcommand := (\<lambda>b w. (Inr True, w @ [Sent b]))\<rparr>"

text \<open>A controller connected through the cloud at time \<open>t\<close>, the switch last seen at \<open>b\<close>.\<close>

definition connected_at :: "real \<Rightarrow> bool option \<Rightarrow> tuya" where
  "connected_at t b = \<lparr> cloud = True, device = False, last_state = b,
     connection_verified = True, last_successful_connection = Some t, use_cloud_api = True \<rparr>"


section \<open>GoogleCalendarMonitor\<close>

text \<open>\<^verbatim>\<open>str(e)\<close> of an exception, with Python's decimal notation of an integer.\<close>

function str_nat :: "nat \<Rightarrow> string" where
  "str_nat n = (if n < 10 then [char_of (48 + n)] else str_nat (n div 10) @ [char_of (48 + n mod 10)])"
  by pat_completeness auto
termination
  by (relation "measure id") auto

declare str_nat.simps [simp del]

definition str_int :: "int \<Rightarrow> string" where
  "str_int i = (if i < 0 then CHR ''-'' # str_nat (nat (- i)) else str_nat (nat i))"

fun str :: "exn \<Rightarrow> string" where
  "str (Exception m) = m"
| "str (HttpError m) = m"
| "str (AllRetriesFailed n) = ''All '' @ str_int n @ '' retry attempts failed''"

text \<open>
  An event resource of the Calendar API, with the keys the program reads. The times are
  what \<^verbatim>\<open>datetime.fromisoformat\<close> makes of the event's \<^verbatim>\<open>dateTime\<close> (or \<^verbatim>\<open>date\<close>), as seconds on
  the wall clock of the event's own zone, and \<open>None\<close> where parsing raises. Every event
  has the keys \<^verbatim>\<open>start\<close> and \<^verbatim>\<open>end\<close>, as the API's event resource does.
  \<open>response_status\<close> is the \<^verbatim>\<open>responseStatus\<close> of the attendee marked \<^verbatim>\<open>self\<close>.
\<close>

record event =
  summary :: "string option"
  transparency :: "string option"
  start_dt :: "real option"
  end_dt :: "real option"
  response_status :: "string option"

text \<open>
  The calls into the Google libraries and the file system. A \<open>creds\<close> is the identity of a
  \<open>Credentials\<close> object; what its properties say depends on the world.
\<close>

type_synonym creds = nat

record 'w google_api =
  token_exists :: "'w \<Rightarrow> bool"               \<comment> \<open>\<^verbatim>\<open>os.path.exists(self.token_path)\<close>\<close>
  from_authorized_user_file :: "'w \<Rightarrow> (exn + creds) \<times> 'w"
  valid :: "creds \<Rightarrow> 'w \<Rightarrow> bool"           \<comment> \<open>\<^verbatim>\<open>creds.valid\<close>\<close>
  expired :: "creds \<Rightarrow> 'w \<Rightarrow> bool"         \<comment> \<open>\<^verbatim>\<open>creds.expired\<close>\<close>
  refresh_token :: "creds \<Rightarrow> 'w \<Rightarrow> bool"   \<comment> \<open>the truth of \<^verbatim>\<open>creds.refresh_token\<close>\<close>
  refresh :: "creds \<Rightarrow> 'w \<Rightarrow> (exn + unit) \<times> 'w"   \<comment> \<open>\<^verbatim>\<open>creds.refresh(Request())\<close>\<close>
  remove_token :: "'w \<Rightarrow> (exn + unit) \<times> 'w"   \<comment> \<open>\<^verbatim>\<open>os.remove(self.token_path)\<close>\<close>
  credentials_exists :: "'w \<Rightarrow> bool"         \<comment> \<open>\<^verbatim>\<open>os.path.exists(self.credentials_path)\<close>\<close>
  save_token :: "creds \<Rightarrow> 'w \<Rightarrow> 'w"
    \<comment> \<open>writing the token file, inside its own \<^verbatim>\<open>try\<close>: a failure is logged only\<close>
  build :: "creds \<Rightarrow> 'w \<Rightarrow> (exn + unit) \<times> 'w"     \<comment> \<open>\<^verbatim>\<open>build('calendar', 'v3', ...)\<close>\<close>
  events_list :: "real \<Rightarrow> real \<Rightarrow> bool \<Rightarrow> 'w \<Rightarrow> (exn + event list) \<times> 'w"
    \<comment> \<open>\<^verbatim>\<open>service.events().list(timeMin, timeMax, singleEvents=True).execute().get('items', [])\<close>;
        the flag says whether \<^verbatim>\<open>orderBy='startTime'\<close> is passed\<close>

text \<open>The fields of the monitor that change; \<open>service\<close> says whether the service is set.\<close>

record gcal =
  service :: bool
  last_successful_auth :: "real option"
  credentials :: "creds option"

definition gcal_init :: gcal where
  "gcal_init = \<lparr> service = False, last_successful_auth = None, credentials = None \<rparr>"

text \<open>\<open>_authenticate\<close>, first part: loading the existing token.\<close>

definition load_token :: "'w google_api \<Rightarrow> 'w \<Rightarrow> creds option \<times> 'w" where
  "load_token G w =
     (if token_exists G w then
        (case from_authorized_user_file G w of
           (Inl e, w1) \<Rightarrow> (None, w1)
         | (Inr cr, w1) \<Rightarrow> (Some cr, w1))
      else (None, w))"

text \<open>
  \<open>_authenticate\<close>, the branch \<^verbatim>\<open>if not creds or not creds.valid\<close>: refreshing, giving up
  without credentials, saving the token.
\<close>

definition renew_credentials ::
  "'w google_api \<Rightarrow> creds option \<Rightarrow> 'w \<Rightarrow> (exn + creds) \<times> 'w" where
  "renew_credentials G creds0 w =
     (case
        (case creds0 of
           None \<Rightarrow> (Inr None, w)
         | Some cr \<Rightarrow>
             if expired G cr w \<and> refresh_token G cr w then
               (case refresh G cr w of
                  (Inr u, w1) \<Rightarrow> (Inr (Some cr), w1)
                | (Inl e, w1) \<Rightarrow>
                    if token_exists G w1 then
                      (case remove_token G w1 of
                         (Inl e', w2) \<Rightarrow> (Inl e', w2)
                       | (Inr u, w2) \<Rightarrow> (Inr None, w2))
                    else (Inr None, w1))
             else (Inr (Some cr), w))
      of
        (Inl e, w2) \<Rightarrow> (Inl e, w2)
      | (Inr None, w2) \<Rightarrow>
          if \<not> credentials_exists G w2 then (Inl (Exception ''Credentials file not found''), w2)
          else (Inl (Exception ''No valid credentials available''), w2)
      | (Inr (Some cr), w2) \<Rightarrow> (Inr cr, save_token G cr w2))"

text \<open>The closure \<open>_authenticate\<close> of \<open>authenticate\<close>.\<close>

definition authenticate_func ::
  "'w google_api \<Rightarrow> 'w os \<Rightarrow> gcal \<Rightarrow> 'w \<Rightarrow> (exn + bool) \<times> gcal \<times> 'w" where
  "authenticate_func G E g w =
     (case load_token G w of (creds0, w1) \<Rightarrow>
        (case
           (case creds0 of
              None \<Rightarrow> renew_credentials G creds0 w1
            | Some cr \<Rightarrow>
                if valid G cr w1 then (Inr cr, w1) else renew_credentials G creds0 w1)
         of
           (Inl e, w2) \<Rightarrow> (Inl e, g, w2)
         | (Inr cr, w2) \<Rightarrow>
             (case build G cr w2 of
                (Inl e, w3) \<Rightarrow> (Inl e, g, w3)
              | (Inr u, w3) \<Rightarrow>
                  (Inr True,
                   g\<lparr>service := True, credentials := Some cr,
                     last_successful_auth := Some (time_time E w3)\<rparr>, w3))))"

definition authenticate :: "'w google_api \<Rightarrow> 'w os \<Rightarrow> gcal \<Rightarrow> 'w \<Rightarrow> bool \<times> gcal \<times> 'w" where
  "authenticate G E g w =
     (case retry_with_exponential_backoff E (authenticate_func G E) 3 1 60 g w of
        (Inr r, g1, w1, tr) \<Rightarrow> (r, g1, w1)
      | (Inl e, g1, w1, tr) \<Rightarrow> (False, g1, w1))"

text \<open>
  The first test of \<open>ensure_authenticated\<close>:
  \<^verbatim>\<open>not self.service or not self.last_successful_auth or
  time.time() - self.last_successful_auth > 1800\<close>.
\<close>

definition needs_reauth :: "gcal \<Rightarrow> real \<Rightarrow> bool" where
  "needs_reauth g now =
     (\<not> service g \<or>
      (case last_successful_auth g of
         None \<Rightarrow> True
       | Some t \<Rightarrow> t = 0 \<or> now - t > 1800))"

definition ensure_authenticated ::
  "'w google_api \<Rightarrow> 'w os \<Rightarrow> gcal \<Rightarrow> 'w \<Rightarrow> bool \<times> gcal \<times> 'w" where
  "ensure_authenticated G E g w =
     (if needs_reauth g (time_time E w) then authenticate G E g w
      else if (case credentials g of None \<Rightarrow> False | Some cr \<Rightarrow> expired G cr w)
      then authenticate G E g w
      else (True, g, w))"

text \<open>
  \<open>get_todays_events\<close>: the events between the start and the last microsecond of the UTC day.
\<close>

definition get_todays_events ::
  "'w google_api \<Rightarrow> 'w os \<Rightarrow> gcal \<Rightarrow> 'w \<Rightarrow> event list \<times> 'w" where
  "get_todays_events G E g w =
     (if \<not> service g then ([], w)
      else
        let now = utcnow E w;
            start_of_day = of_int \<lfloor>now / 86400\<rfloor> * 86400;
            end_of_day = start_of_day + 86399999999 / 1000000
        in (case events_list G start_of_day end_of_day True w of
              (Inl e, w1) \<Rightarrow> ([], w1)
            | (Inr items, w1) \<Rightarrow> (items, w1)))"

text \<open>\<^verbatim>\<open>event.get('transparency', 'opaque')\<close> and \<^verbatim>\<open>event.get('summary', 'Busy')\<close>.\<close>

definition get_transparency :: "event \<Rightarrow> string" where
  "get_transparency ev = (case transparency ev of None \<Rightarrow> ''opaque'' | Some t \<Rightarrow> t)"

definition get_summary :: "event \<Rightarrow> string" where
  "get_summary ev = (case summary ev of None \<Rightarrow> ''Busy'' | Some t \<Rightarrow> t)"

text \<open>The loop of \<open>_check_busy_soon\<close> over the events, and what follows it.\<close>

fun busy_soon_loop :: "event list \<Rightarrow> bool \<times> string option" where
  "busy_soon_loop [] = (False, None)"
| "busy_soon_loop (ev # events) =
     (if get_transparency ev = ''opaque'' then (True, Some (get_summary ev))
      else busy_soon_loop events)"

text \<open>The closure \<open>_check_busy_soon\<close> of \<open>is_busy_soon\<close>.\<close>

definition check_busy_soon ::
  "'w google_api \<Rightarrow> 'w os \<Rightarrow> int \<Rightarrow> gcal \<Rightarrow> 'w \<Rightarrow>
   (exn + bool \<times> string option) \<times> gcal \<times> 'w" where
  "check_busy_soon G E lead_time_minutes g w =
     (let now = utcnow E w;
          check_until = now + 60 * of_int lead_time_minutes
      in (case events_list G now check_until True w of
            (Inl e, w1) \<Rightarrow> (Inl e, g, w1)
          | (Inr events, w1) \<Rightarrow> (Inr (busy_soon_loop events), g, w1)))"

definition is_busy_soon ::
  "'w google_api \<Rightarrow> 'w os \<Rightarrow> int \<Rightarrow> gcal \<Rightarrow> 'w \<Rightarrow> (bool \<times> string option) \<times> gcal \<times> 'w" where
  "is_busy_soon G E lead_time_minutes g w =
     (case ensure_authenticated G E g w of
        (False, g1, w1) \<Rightarrow> ((False, Some ''Authentication failed''), g1, w1)
      | (True, g1, w1) \<Rightarrow>
          (case retry_with_exponential_backoff E (check_busy_soon G E lead_time_minutes)
                  3 1 60 g1 w1 of
             (Inr r, g2, w2, tr) \<Rightarrow> (r, g2, w2)
           | (Inl (HttpError m), g2, w2, tr) \<Rightarrow> ((False, Some (''API Error: '' @ m)), g2, w2)
           | (Inl e, g2, w2, tr) \<Rightarrow> ((False, Some (''Error: '' @ str e)), g2, w2)))"

text \<open>
  The loop of \<open>_check_currently_busy\<close>. \<open>now\<close> is the UTC wall clock, which
  \<^verbatim>\<open>now.replace(tzinfo=start_dt.tzinfo)\<close> relabels without shifting.
\<close>

fun currently_busy_loop :: "real \<Rightarrow> event list \<Rightarrow> exn + bool \<times> string option" where
  "currently_busy_loop now [] = Inr (False, None)"
| "currently_busy_loop now (ev # events) =
     (case (start_dt ev, end_dt ev) of
        (Some s, Some e) \<Rightarrow>
          if s \<le> now \<and> now \<le> e then
            (if get_transparency ev = ''opaque'' then Inr (True, Some (get_summary ev))
             else currently_busy_loop now events)
          else currently_busy_loop now events
      | _ \<Rightarrow> Inl (Exception ''Invalid isoformat string''))"

text \<open>The closure \<open>_check_currently_busy\<close> of \<open>is_currently_busy\<close>.\<close>

definition check_currently_busy ::
  "'w google_api \<Rightarrow> 'w os \<Rightarrow> gcal \<Rightarrow> 'w \<Rightarrow> (exn + bool \<times> string option) \<times> gcal \<times> 'w" where
  "check_currently_busy G E g w =
     (let now = utcnow E w
      in (case events_list G now now False w of
            (Inl e, w1) \<Rightarrow> (Inl e, g, w1)
          | (Inr events, w1) \<Rightarrow> (currently_busy_loop now events, g, w1)))"

definition is_currently_busy ::
  "'w google_api \<Rightarrow> 'w os \<Rightarrow> gcal \<Rightarrow> 'w \<Rightarrow> (bool \<times> string option) \<times> gcal \<times> 'w" where
  "is_currently_busy G E g w =
     (case ensure_authenticated G E g w of
        (False, g1, w1) \<Rightarrow> ((False, Some ''Authentication failed''), g1, w1)
      | (True, g1, w1) \<Rightarrow>
          (case retry_with_exponential_backoff E (check_currently_busy G E) 3 1 60 g1 w1 of
             (Inr r, g2, w2, tr) \<Rightarrow> (r, g2, w2)
           | (Inl e, g2, w2, tr) \<Rightarrow> ((False, Some (''Error: '' @ str e)), g2, w2)))"



text \<open>
  A calendar whose token is valid and that returns the events \<open>evs\<close> to every query, and
  one with neither a token nor a credentials file.
\<close>

definition good_google :: "event list \<Rightarrow> 'w google_api" where
  "good_google evs = \<lparr> token_exists = (\<lambda>w. True),
     from_authorized_user_file = (\<lambda>w. (Inr 0, w)),
     valid = (\<lambda>cr w. True), expired = (\<lambda>cr w. False), refresh_token = (\<lambda>cr w. True),
     refresh = (\<lambda>cr w. (Inr (), w)), remove_token = (\<lambda>w. (Inr (), w)),
     credentials_exists = (\<lambda>w. True), save_token = (\<lambda>cr w. w),
     build = (\<lambda>cr w. (Inr (), w)),
     events_list = (\<lambda>t_min t_max ordered w. (Inr evs, w)) \<rparr>"

definition no_google :: "'w google_api" where
  "no_google = \<lparr> token_exists = (\<lambda>w. False),
     from_authorized_user_file = (\<lambda>w. (Inl (Exception ''No such file''), w)),
     valid = (\<lambda>cr w. False), expired = (\<lambda>cr w. True), refresh_token = (\<lambda>cr w. False),
     refresh = (\<lambda>cr w. (Inl (Exception ''invalid_grant''), w)),
     remove_token = (\<lambda>w. (Inl (Exception ''No such file''), w)),
     credentials_exists = (\<lambda>w. False), save_token = (\<lambda>cr w. w),
     build = (\<lambda>cr w. (Inl (Exception ''no credentials''), w)),
     events_list = (\<lambda>t_min t_max ordered w. (Inl (HttpError ''401''), w)) \<rparr>"

text \<open>A monitor authenticated at time \<open>t\<close>.\<close>

definition authenticated_at :: "real \<Rightarrow> gcal" where
  "authenticated_at t = \<lparr> service = True, last_successful_auth = Some t, credentials = Some 0 \<rparr>"

text \<open>An event with a title and a transparency marker, from second \<open>s\<close> to second \<open>e\<close>.\<close>

definition mk_event :: "string \<Rightarrow> string option \<Rightarrow> real \<Rightarrow> real \<Rightarrow> string option \<Rightarrow> event" where
  "mk_event title marker s e resp = \<lparr> summary = Some title, transparency = marker,
     start_dt = Some s, end_dt = Some e, response_status = resp \<rparr>"

text \<open>
  At second 1000, with a lead of two minutes: a transparent lunch around now and an opaque,
  declined stand-up starting in a minute.
\<close>

definition two_events :: "event list" where
  "two_events = [mk_event ''Lunch'' (Some ''transparent'') 900 2000 None,
                 mk_event ''Standup'' None 1060 1960 (Some ''declined'')]"


section \<open>BusyLightService\<close>

text \<open>
  The fields of the service that change, with its two components and its configuration.
  \<open>error_flash_thread\<close> and \<open>heartbeat_thread\<close> say whether the thread object is set; whether
  a thread is alive is a question to the world. The threads themselves run beside the
  main loop and are not part of this sequential model.
\<close>

record service =
  tuya :: tuya
  calendar :: gcal
  lead_time :: int
  poll_interval :: int
  is_busy :: bool
  error_flash_thread :: bool
  error_stop_event :: bool
  running :: bool
  heartbeat_thread :: bool
  heartbeat_stop_event :: bool

text \<open>The state \<^verbatim>\<open>__init__\<close> leaves, with the default lead time and poll interval.\<close>

definition service_init :: service where
  "service_init = \<lparr> tuya = tuya_init, calendar = gcal_init, lead_time = 2, poll_interval = 30,
     is_busy = False, error_flash_thread = False, error_stop_event = False, running = True,
     heartbeat_thread = False, heartbeat_stop_event = False \<rparr>"

text \<open>
  What the main thread of the service does, in order, as far as the properties below need it:
  the startup flash, the decision \<^verbatim>\<open>should_be_on = busy_soon or currently_busy\<close>, a call
  \<^verbatim>\<open>self.tuya.set_state(state)\<close>, the start of a thread, the setting of a stop event, and the
  arrival at \<^verbatim>\<open>while self.running\<close>.
\<close>

datatype step =
  Flashes "flash_event list"
  | Decides bool
  | Calls_set_state bool
  | Starts_error_flash
  | Stops_error_flash
  | Starts_heartbeat
  | Stops_heartbeat
  | Enters_loop

fun switch_calls :: "step list \<Rightarrow> bool list" where
  "switch_calls [] = []"
| "switch_calls (Calls_set_state b # tr) = b # switch_calls tr"
| "switch_calls (x # tr) = switch_calls tr"

fun decisions :: "step list \<Rightarrow> bool list" where
  "decisions [] = []"
| "decisions (Decides b # tr) = b # decisions tr"
| "decisions (x # tr) = decisions tr"

definition start_error_flash :: "'w os \<Rightarrow> service \<Rightarrow> 'w \<Rightarrow> service \<times> 'w \<times> step list" where
  "start_error_flash E s w =
     (if error_flash_thread s \<and> is_alive E Error_flash_thread w then (s, w, [])
      else (s\<lparr>error_stop_event := False, error_flash_thread := True\<rparr>,
            thread_start E Error_flash_thread w, [Starts_error_flash]))"

definition stop_error_flash :: "'w os \<Rightarrow> service \<Rightarrow> 'w \<Rightarrow> service \<times> 'w \<times> step list" where
  "stop_error_flash E s w =
     (if error_flash_thread s \<and> is_alive E Error_flash_thread w then
        (s\<lparr>error_stop_event := True\<rparr>, thread_join E Error_flash_thread w, [Stops_error_flash])
      else (s, w, []))"

definition start_heartbeat_monitor ::
  "'w os \<Rightarrow> service \<Rightarrow> 'w \<Rightarrow> service \<times> 'w \<times> step list" where
  "start_heartbeat_monitor E s w =
     (if heartbeat_thread s \<and> is_alive E Heartbeat_thread w then (s, w, [])
      else (s\<lparr>heartbeat_stop_event := False, heartbeat_thread := True\<rparr>,
            thread_start E Heartbeat_thread w, [Starts_heartbeat]))"


text \<open>\<open>log_daily_events\<close> fetches the events of the day and logs them; only the query shows.\<close>

definition log_daily_events :: "'w google_api \<Rightarrow> 'w os \<Rightarrow> service \<Rightarrow> 'w \<Rightarrow> 'w" where
  "log_daily_events G E s w = snd (get_todays_events G E (calendar s) w)"

text \<open>Python's \<^verbatim>\<open>a or b\<close> on two optional strings: \<open>a\<close> unless it is \<open>None\<close> or empty.\<close>

definition py_or :: "string option \<Rightarrow> string option \<Rightarrow> string option" where
  "py_or a b = (case a of None \<Rightarrow> b | Some x \<Rightarrow> if x = [] then b else a)"

text \<open>
  \<open>startup_sequence\<close>. The handler around its status check is never entered: the calls
  inside it return and do not raise.
\<close>

definition startup_sequence ::
  "'w tuya_api \<Rightarrow> 'w google_api \<Rightarrow> 'w os \<Rightarrow> service \<Rightarrow> 'w \<Rightarrow>
   bool \<times> service \<times> 'w \<times> step list" where
  "startup_sequence T G E s w =
     (case connect T E (tuya s) w of
        (False, t1, w1) \<Rightarrow> (False, s\<lparr>tuya := t1\<rparr>, w1, [])
      | (True, t1, w1) \<Rightarrow>
          (case authenticate G E (calendar s) w1 of
             (False, g1, w2) \<Rightarrow> (False, s\<lparr>tuya := t1, calendar := g1\<rparr>, w2, [])
           | (True, g1, w2) \<Rightarrow>
               (case flash T E 3 1 t1 w2 of (fr, t2, w3, ftr) \<Rightarrow>
               (case is_busy_soon G E (lead_time s) g1 w3 of
                  ((busy_soon, event_soon), g2, w4) \<Rightarrow>
               (case is_currently_busy G E g2 w4 of
                  ((currently_busy, current_event), g3, w5) \<Rightarrow>
                  let should_be_on = busy_soon \<or> currently_busy in
                  if should_be_on then
                    (case set_state T E True t2 w5 of (r, t3, w6) \<Rightarrow>
                       (True, s\<lparr>tuya := t3, calendar := g3, is_busy := True\<rparr>, w6,
                        [Flashes ftr, Decides should_be_on, Calls_set_state True]))
                  else
                    (case set_state T E False t2 w5 of (r, t3, w6) \<Rightarrow>
                       (True, s\<lparr>tuya := t3, calendar := g3, is_busy := False\<rparr>, w6,
                        [Flashes ftr, Decides should_be_on, Calls_set_state False])))))))"

subsection \<open>wait_for_network\<close>

definition is_network_available :: "'w os \<Rightarrow> 'w \<Rightarrow> bool \<times> 'w" where
  "is_network_available E w = create_connection E w"

text \<open>
  The loop \<^verbatim>\<open>while time.time() - start_time < max_wait\<close> ends only if the clock moves on, so
  it runs on fuel: \<open>None\<close> when the fuel is used up before the loop has ended.
\<close>

fun wait_loop ::
  "'w os \<Rightarrow> nat \<Rightarrow> real \<Rightarrow> real \<Rightarrow> real \<Rightarrow> 'w \<Rightarrow> (exn + bool) option \<times> 'w" where
  "wait_loop E 0 start_time max_wait check_interval w = (None, w)"
| "wait_loop E (Suc fuel) start_time max_wait check_interval w =
     (if time_time E w - start_time < max_wait then
        (case is_network_available E w of
           (True, w1) \<Rightarrow> (Some (Inr True), w1)
         | (False, w1) \<Rightarrow>
             (case sleep E check_interval w1 of
                (Inl e, w2) \<Rightarrow> (Some (Inl e), w2)
              | (Inr u, w2) \<Rightarrow> wait_loop E fuel start_time max_wait check_interval w2))
      else (Some (Inr False), w))"

definition wait_for_network ::
  "'w os \<Rightarrow> nat \<Rightarrow> real \<Rightarrow> real \<Rightarrow> 'w \<Rightarrow> (exn + bool) option \<times> 'w" where
  "wait_for_network E fuel max_wait check_interval w =
     wait_loop E fuel (time_time E w) max_wait check_interval w"

subsection \<open>The body of the loop of run\<close>

text \<open>The local variables of \<open>run\<close> that the loop carries along; only the log reads them.\<close>

record tracking =
  previous_busy_state :: bool
  previous_event_name :: "string option"

text \<open>
  The first block of the body, the network check (lines 696 to 709). It yields True to go
  on with the calendar check, False where the body ends with \<^verbatim>\<open>continue\<close>, an exception, or
  \<open>None\<close> when the wait ran out of fuel.
\<close>

definition check_network ::
  "'w tuya_api \<Rightarrow> 'w google_api \<Rightarrow> 'w os \<Rightarrow> nat \<Rightarrow> service \<Rightarrow> 'w \<Rightarrow>
   (exn + bool) option \<times> service \<times> 'w \<times> step list" where
  "check_network T G E fuel s w =
     (case is_network_available E w of
        (True, w1) \<Rightarrow> (Some (Inr True), s, w1, [])
      | (False, w1) \<Rightarrow>
          (case wait_for_network E fuel 300 10 w1 of
             (None, w2) \<Rightarrow> (None, s, w2, [])
           | (Some (Inl e), w2) \<Rightarrow> (Some (Inl e), s, w2, [])
           | (Some (Inr False), w2) \<Rightarrow>
               (case start_error_flash E s w2 of (s1, w3, tr) \<Rightarrow>
                  (case sleep E (of_int (poll_interval s1)) w3 of
                     (Inl e, w4) \<Rightarrow> (Some (Inl e), s1, w4, tr)
                   | (Inr u, w4) \<Rightarrow> (Some (Inr False), s1, w4, tr)))
           | (Some (Inr True), w2) \<Rightarrow>
               (case connect T E (tuya s) w2 of (r1, t1, w3) \<Rightarrow>
                  (case authenticate G E (calendar s) w3 of (r2, g1, w4) \<Rightarrow>
                     (Some (Inr True), s\<lparr>tuya := t1, calendar := g1\<rparr>, w4, [])))))"

text \<open>
  The rest of the body, the calendar check (lines 711 to 762): the two queries, the decision,
  the update of the light if the decision differs from \<open>is_busy\<close>, the tracking variables,
  \<open>stop_error_flash\<close>, and the sleep until the next minute.
\<close>

definition check_calendar ::
  "'w tuya_api \<Rightarrow> 'w google_api \<Rightarrow> 'w os \<Rightarrow> tracking \<Rightarrow> service \<Rightarrow> 'w \<Rightarrow>
   (exn + unit) \<times> tracking \<times> service \<times> 'w \<times> step list" where
  "check_calendar T G E tv s w =
     (let w1 = log_daily_events G E s w in
      (case is_busy_soon G E (lead_time s) (calendar s) w1 of
         ((busy_soon, event_soon), g1, w2) \<Rightarrow>
      (case is_currently_busy G E g1 w2 of
         ((currently_busy, current_event), g2, w3) \<Rightarrow>
         let should_be_on = busy_soon \<or> currently_busy;
             current_event_name = py_or event_soon current_event;
             s1 = s\<lparr>calendar := g2\<rparr>
         in
         (case
            (if should_be_on \<noteq> is_busy s1 then
               (if should_be_on then
                  (case set_state T E True (tuya s1) w3 of (r, t1, w4) \<Rightarrow>
                     (s1\<lparr>is_busy := should_be_on, tuya := t1\<rparr>, w4, [Calls_set_state True]))
                else
                  (case set_state T E False (tuya s1) w3 of (r, t1, w4) \<Rightarrow>
                     (s1\<lparr>is_busy := should_be_on, tuya := t1\<rparr>, w4, [Calls_set_state False])))
             else (s1, w3, []))
          of (s2, w4, tr1) \<Rightarrow>
            let tv1 = \<lparr>previous_busy_state = should_be_on,
                       previous_event_name = current_event_name\<rparr>
            in
            (case stop_error_flash E s2 w4 of (s3, w5, tr2) \<Rightarrow>
               (case sleep E (60 - now_second E w5) w5 of
                  (Inl e, w6) \<Rightarrow> (Inl e, tv1, s3, w6, Decides should_be_on # tr1 @ tr2)
                | (Inr u, w6) \<Rightarrow> (Inr (), tv1, s3, w6, Decides should_be_on # tr1 @ tr2)))))))"

text \<open>
  The first part of that check on its own (lines 711 to 749): what the body has done when
  it comes to \<open>stop_error_flash\<close>. It yields the decision, the tracking variables, and the
  service and the world as they are then.
\<close>

definition decide_and_switch ::
  "'w tuya_api \<Rightarrow> 'w google_api \<Rightarrow> 'w os \<Rightarrow> service \<Rightarrow> 'w \<Rightarrow>
   bool \<times> tracking \<times> service \<times> 'w \<times> step list" where
  "decide_and_switch T G E s w =
     (let w1 = log_daily_events G E s w in
      (case is_busy_soon G E (lead_time s) (calendar s) w1 of
         ((busy_soon, event_soon), g1, w2) \<Rightarrow>
      (case is_currently_busy G E g1 w2 of
         ((currently_busy, current_event), g2, w3) \<Rightarrow>
         let should_be_on = busy_soon \<or> currently_busy;
             current_event_name = py_or event_soon current_event;
             s1 = s\<lparr>calendar := g2\<rparr>
         in
         (case
            (if should_be_on \<noteq> is_busy s1 then
               (if should_be_on then
                  (case set_state T E True (tuya s1) w3 of (r, t1, w4) \<Rightarrow>
                     (s1\<lparr>is_busy := should_be_on, tuya := t1\<rparr>, w4, [Calls_set_state True]))
                else
                  (case set_state T E False (tuya s1) w3 of (r, t1, w4) \<Rightarrow>
                     (s1\<lparr>is_busy := should_be_on, tuya := t1\<rparr>, w4, [Calls_set_state False])))
             else (s1, w3, []))
          of (s2, w4, tr1) \<Rightarrow>
            let tv1 = \<lparr>previous_busy_state = should_be_on,
                       previous_event_name = current_event_name\<rparr>
            in (should_be_on, tv1, s2, w4, Decides should_be_on # tr1)))))"

text \<open>
  How one run of the body ends: the check completed, the body left by \<^verbatim>\<open>continue\<close>, an
  exception met by the handler of the loop, or an exception raised inside that handler,
  which leaves \<open>run\<close>.
\<close>

datatype tick_outcome = Completed | Skipped | Handled exn | Raised exn

text \<open>The handler \<^verbatim>\<open>except Exception\<close> of the loop.\<close>

definition on_error ::
  "'w os \<Rightarrow> exn \<Rightarrow> tracking \<Rightarrow> service \<Rightarrow> 'w \<Rightarrow> step list \<Rightarrow>
   tick_outcome \<times> tracking \<times> service \<times> 'w \<times> step list" where
  "on_error E e tv s w tr =
     (case start_error_flash E s w of (s1, w1, tr1) \<Rightarrow>
        (case sleep E (of_int (poll_interval s1)) w1 of
           (Inl e', w2) \<Rightarrow> (Raised e', tv, s1, w2, tr @ tr1)
         | (Inr u, w2) \<Rightarrow> (Handled e, tv, s1, w2, tr @ tr1)))"

text \<open>One run of the body of \<^verbatim>\<open>while self.running\<close>.\<close>

definition tick ::
  "'w tuya_api \<Rightarrow> 'w google_api \<Rightarrow> 'w os \<Rightarrow> nat \<Rightarrow> tracking \<Rightarrow> service \<Rightarrow> 'w \<Rightarrow>
   (tick_outcome \<times> tracking \<times> service \<times> 'w \<times> step list) option" where
  "tick T G E fuel tv s w =
     (case check_network T G E fuel s w of
        (None, s1, w1, tr) \<Rightarrow> None
      | (Some (Inl e), s1, w1, tr) \<Rightarrow> Some (on_error E e tv s1 w1 tr)
      | (Some (Inr False), s1, w1, tr) \<Rightarrow> Some (Skipped, tv, s1, w1, tr)
      | (Some (Inr True), s1, w1, tr) \<Rightarrow>
          (case check_calendar T G E tv s1 w1 of
             (Inl e, tv1, s2, w2, tr2) \<Rightarrow> Some (on_error E e tv1 s2 w2 (tr @ tr2))
           | (Inr u, tv1, s2, w2, tr2) \<Rightarrow> Some (Completed, tv1, s2, w2, tr @ tr2)))"

subsection \<open>run and stop\<close>

text \<open>
  How an observation of \<open>run\<close> ends: it returned after a failed startup, it left the loop
  with \<open>running\<close> false, an exception left it, or the loop was still going when the
  observation ended (after \<open>n\<close> rounds, or inside a wait out of fuel).
\<close>

datatype run_outcome = Startup_failed | Loop_exited | Run_raised exn | Still_running

fun run_loop ::
  "'w tuya_api \<Rightarrow> 'w google_api \<Rightarrow> 'w os \<Rightarrow> nat \<Rightarrow> nat \<Rightarrow> tracking \<Rightarrow> service \<Rightarrow> 'w \<Rightarrow>
   run_outcome \<times> service \<times> 'w \<times> step list" where
  "run_loop T G E fuel 0 tv s w = (Still_running, s, w, [])"
| "run_loop T G E fuel (Suc n) tv s w =
     (if \<not> running s then (Loop_exited, s, w, [])
      else
        (case tick T G E fuel tv s w of
           None \<Rightarrow> (Still_running, s, w, [])
         | Some (Raised e, tv1, s1, w1, tr) \<Rightarrow> (Run_raised e, s1, w1, tr)
         | Some (out, tv1, s1, w1, tr) \<Rightarrow>
             (case run_loop T G E fuel n tv1 s1 w1 of
                (r, s2, w2, tr2) \<Rightarrow> (r, s2, w2, tr @ tr2))))"

text \<open>
  \<open>run\<close>, observed for \<open>n\<close> rounds of its loop. The sleep that syncs to the minute is only
  taken when it is longer than a second; it stands outside every handler, so what it raises
  leaves \<open>run\<close>.
\<close>

definition run ::
  "'w tuya_api \<Rightarrow> 'w google_api \<Rightarrow> 'w os \<Rightarrow> nat \<Rightarrow> nat \<Rightarrow> service \<Rightarrow> 'w \<Rightarrow>
   run_outcome \<times> service \<times> 'w \<times> step list" where
  "run T G E fuel n s w =
     (case startup_sequence T G E s w of
        (False, s1, w1, tr) \<Rightarrow>
          (case start_error_flash E s1 w1 of (s2, w2, tr2) \<Rightarrow>
             (Startup_failed, s2, w2, tr @ tr2))
      | (True, s1, w1, tr) \<Rightarrow>
          (case start_heartbeat_monitor E s1 w1 of (s2, w2, tr2) \<Rightarrow>
             let seconds_until_next_minute = 60 - now_second E w2 in
             (case (if seconds_until_next_minute > 1
                    then sleep E seconds_until_next_minute w2 else (Inr (), w2)) of
                (Inl e, w3) \<Rightarrow> (Run_raised e, s2, w3, tr @ tr2)
              | (Inr u, w3) \<Rightarrow>
                  (case run_loop T G E fuel n
                          \<lparr>previous_busy_state = False, previous_event_name = None\<rparr> s2 w3 of
                     (r, s3, w4, tr3) \<Rightarrow> (r, s3, w4, tr @ tr2 @ Enters_loop # tr3)))))"


text \<open>The tracking variables as \<open>run\<close> sets them before its loop.\<close>

definition tracking_init :: tracking where
  "tracking_init = \<lparr>previous_busy_state = False, previous_event_name = None\<rparr>"

text \<open>An operating system as \<open>quiet_os\<close>, with the error-flash thread alive.\<close>

definition flashing_os :: "unit os" where
  "flashing_os = quiet_os\<lparr>is_alive := (\<lambda>t w. t = Error_flash_thread)\<rparr>"

text \<open>A service whose controller and monitor were verified at time \<open>t\<close>.\<close>

definition service_at :: "real \<Rightarrow> bool \<Rightarrow> service" where
  "service_at t flashing = service_init\<lparr>tuya := connected_at t (Some False),
     calendar := authenticated_at t, error_flash_thread := flashing\<rparr>"


section \<open>Properties of the retry loop\<close>

lemma sleep_ok:
  "0 \<le> d \<Longrightarrow> d \<le> sleep_limit E \<Longrightarrow> sleep E d w = (Inr (), time_sleep E d w)"
  by (simp add: sleep_def)

text \<open>
  The powers of two are those of the real exponentiation, so they are ordered as their
  exponents.
\<close>

lemma pow2_powr: "pow2 e = 2 powr of_int e"
proof (cases "0 \<le> e")
  case True
  then show ?thesis by (simp add: pow2_def powr_realpow[symmetric])
next
  case False
  then have "(2::real) powr of_int e = 1 / 2 powr of_int (- e)"
    by (simp add: powr_minus divide_simps)
  also have "\<dots> = 1 / 2 ^ nat (- e)" using False by (simp add: powr_realpow[symmetric])
  finally show ?thesis using False by (simp add: pow2_def)
qed

lemma pow2_pos: "0 < pow2 e" by (simp add: pow2_powr)

lemma pow2_le_iff: "pow2 a \<le> pow2 b \<longleftrightarrow> a \<le> b" by (simp add: pow2_powr)

lemma pow2_less_iff: "pow2 a < pow2 b \<longleftrightarrow> a < b" by (simp add: pow2_powr)

lemma exponent_eq:
  "pow2 e \<le> a \<Longrightarrow> a < pow2 (e + 1) \<Longrightarrow> - 1022 \<le> e \<Longrightarrow> e \<le> int n - 1022 \<Longrightarrow>
   exponent n a = e"
proof (induction n)
  case 0
  then show ?case by simp
next
  case (Suc n)
  show ?case
  proof (cases "pow2 (int (Suc n) - 1022) \<le> a")
    case True
    with Suc.prems(2) have "pow2 (int (Suc n) - 1022) < pow2 (e + 1)" by simp
    then have "int (Suc n) - 1022 < e + 1" by (simp only: pow2_less_iff)
    with Suc.prems(4) have "e = int (Suc n) - 1022" by simp
    with True show ?thesis by simp
  next
    case False
    with Suc.prems(1) have "pow2 e < pow2 (int (Suc n) - 1022)" by simp
    then have "e < int (Suc n) - 1022" by (simp only: pow2_less_iff)
    then have "e \<le> int n - 1022" by simp
    with Suc.IH Suc.prems False show ?thesis by simp
  qed
qed


text \<open>Rounding a number whose binade is known.\<close>

lemma double_round_in_binade:
  assumes "pow2 e \<le> \<bar>x\<bar>" and "\<bar>x\<bar> < pow2 (e + 1)" and "- 1022 \<le> e" and "e \<le> 1023"
  shows "double_round x =
     (let u = pow2 (e - 52);
          q = x / u;
          f = \<lfloor>q\<rfloor>;
          n = (if q - of_int f < 1 / 2 then f
               else if 1 / 2 < q - of_int f then f + 1
               else if even f then f else f + 1)
      in of_int n * u)"
proof -
  have pos: "0 < \<bar>x\<bar>" using assms(1) pow2_pos[of e] by linarith
  then have nz: "x \<noteq> 0" by auto
  have "exponent 2045 \<bar>x\<bar> = e"
    using assms by (intro exponent_eq) simp_all
  then show ?thesis using nz by (simp add: double_round_def)
qed

lemma double_round_3_2: "double_round (3 / 2) = 3 / 2"
  using double_round_in_binade[of 0 "3 / 2"] by (simp add: Let_def pow2_def)

lemma double_round_5_2: "double_round (5 / 2) = 5 / 2"
  using double_round_in_binade[of 1 "5 / 2"] by (simp add: Let_def pow2_def)




lemma backoff_delay_quiet:
  "backoff_delay 1 60 0 (1 / 2) = 3 / 2" "backoff_delay 1 60 (Suc 0) (1 / 2) = 5 / 2"
  by (simp_all add: backoff_delay_def Let_def double_round_3_2 double_round_5_2)










lemmas retry_run = retry_with_exponential_backoff_def sleep_def upt_conv_Cons quiet_os_def
  recording_os_def backoff_delay_quiet







section \<open>Properties of the controller\<close>

lemma set_state_calls_append [simp]:
  "set_state_calls (xs @ ys) = set_state_calls xs @ set_state_calls ys"
  by (induction xs rule: set_state_calls.induct) auto

lemma set_state_results_append [simp]:
  "set_state_results (xs @ ys) = set_state_results xs @ set_state_results ys"
  by (induction xs rule: set_state_results.induct) auto

text \<open>
  The loop of \<open>flash\<close> issues the toggles in order: induction on the list of rounds, a case
  split on what each of the two calls of a round returns.
\<close>

lemma flash_loop_issues:
  assumes d: "0 \<le> d" "d \<le> sleep_limit E"
  shows "flash_loop T E d xs c w = issue_in_order T E d (toggles (length xs)) c w"
proof (induction xs arbitrary: c w)
  case Nil
  show ?case by simp
next
  case (Cons i rest)
  have sl: "\<And>w. sleep E d w = (Inr (), time_sleep E d w)" using d by (rule sleep_ok)
  obtain ok1 c1 w1 where s1: "set_state T E True c w = (ok1, c1, w1)"
    by (cases "set_state T E True c w") auto
  show ?case
  proof (cases ok1)
    case False
    with s1 show ?thesis by simp
  next
    case ok1: True
    obtain ok2 c2 w3 where s2: "set_state T E False c1 (time_sleep E d w1) = (ok2, c2, w3)"
      by (cases "set_state T E False c1 (time_sleep E d w1)") auto
    show ?thesis
    proof (cases ok2)
      case False
      with s1 ok1 s2 sl show ?thesis by simp
    next
      case True
      with s1 ok1 s2 sl Cons.IH[of c2 "time_sleep E d w3"] show ?thesis
        by (simp split: prod.splits)
    qed
  qed
qed

text \<open>
  Issuing a list of states either runs through, all calls succeeding, or stops at the first
  failing call.
\<close>

lemma issue_in_order_trace:
  "issue_in_order T E d bs c w = (r, c', w', tr) \<Longrightarrow>
    (r \<and> set_state_calls tr = bs \<and> set_state_results tr = replicate (length bs) True) \<or>
    (\<not> r \<and> (\<exists>m < length bs.
       set_state_calls tr = take (Suc m) bs \<and>
       set_state_results tr = replicate m True @ [False]))"
proof (induction bs arbitrary: c w r c' w' tr)
  case Nil
  then show ?case by auto
next
  case (Cons b bs)
  obtain ok1 c1 w1 where s1: "set_state T E b c w = (ok1, c1, w1)"
    by (cases "set_state T E b c w") auto
  show ?case
  proof (cases ok1)
    case False
    with Cons.prems s1 have "\<not> r" "tr = [Set_state b False]" by auto
    then show ?thesis by (auto intro!: exI[of _ 0])
  next
    case True
    obtain r0 c2 w2 tr0 where
      rec: "issue_in_order T E d bs c1 (time_sleep E d w1) = (r0, c2, w2, tr0)"
      by (cases "issue_in_order T E d bs c1 (time_sleep E d w1)") auto
    with Cons.prems s1 True
    have r: "r = r0" and tr: "tr = Set_state b True # Wait d # tr0" by auto
    from Cons.IH[OF rec] show ?thesis
    proof
      assume "r0 \<and> set_state_calls tr0 = bs \<and>
        set_state_results tr0 = replicate (length bs) True"
      then show ?thesis using r tr by simp
    next
      assume "\<not> r0 \<and> (\<exists>m<length bs.
        set_state_calls tr0 = take (Suc m) bs \<and>
        set_state_results tr0 = replicate m True @ [False])"
      then obtain m where m: "\<not> r0" "m < length bs"
        "set_state_calls tr0 = take (Suc m) bs"
        "set_state_results tr0 = replicate m True @ [False]" by blast
      then show ?thesis using r tr by (auto intro!: exI[of _ "Suc m"])
    qed
  qed
qed

lemma toggles3: "toggles 3 = [True, False, True, False, True, False]"
  by (simp add: numeral_3_eq_3)

lemmas controller_run = flash_def set_state_def ensure_connection_def needs_reconnect_def
  test_connection_def connect_def connect_func_def set_state_func_def
  good_tuya_def dead_tuya_def recording_tuya_def connected_at_def retry_run

text \<open>
  C4, as the code has it. \<open>flash(times=3, duration=1)\<close> on a controller with a handle issues
  the calls \<open>set_state(True)\<close>, \<open>set_state(False)\<close>, three times over and in this order, each
  on the controller and the world the call before it and the sleep of one second left, up
  to the first call that returns False. If one does, \<open>flash\<close> returns False with the
  controller and the world that call left, and issues no restoring call. If all six
  succeed, it issues one more call, restoring the state last known before the flash,
  whenever that state is known (not \<open>None\<close>), whether or not it differs from the final
  toggle, and returns True whatever the restoring call returns.
\<close>

theorem flash_three_times:
  assumes "cloud c \<or> device c" and "1 \<le> sleep_limit E"
  shows "flash T E 3 1 c w =
      (case issue_in_order T E 1 [True, False, True, False, True, False] c w of
         (False, c1, w1, tr) \<Rightarrow> (False, c1, w1, tr)
       | (True, c1, w1, tr) \<Rightarrow>
           (case last_state c of
              None \<Rightarrow> (True, c1, w1, tr)
            | Some b \<Rightarrow>
                (case set_state T E b c1 w1 of
                   (r, c2, w2) \<Rightarrow> (True, c2, w2, tr @ [Set_state b r])))) \<and>
     (case issue_in_order T E 1 [True, False, True, False, True, False] c w of
        (ok, c1, w1, tr) \<Rightarrow>
          (ok \<and> set_state_calls tr = [True, False, True, False, True, False] \<and>
             set_state_results tr = replicate 6 True) \<or>
          (\<not> ok \<and> (\<exists>m<6.
             set_state_calls tr = take (Suc m) [True, False, True, False, True, False] \<and>
             set_state_results tr = replicate m True @ [False])))"
proof -
  have len: "length [0..<nat 3] = 3" by simp
  have "flash_loop T E 1 [0..<nat 3] c w = issue_in_order T E 1 (toggles 3) c w"
    using flash_loop_issues[of 1 E T "[0..<nat 3]" c w] assms(2) unfolding len by simp
  then have 1: "flash T E 3 1 c w =
      (case issue_in_order T E 1 [True, False, True, False, True, False] c w of
         (False, c1, w1, tr) \<Rightarrow> (False, c1, w1, tr)
       | (True, c1, w1, tr) \<Rightarrow>
           (case last_state c of
              None \<Rightarrow> (True, c1, w1, tr)
            | Some b \<Rightarrow>
                (case set_state T E b c1 w1 of
                   (r, c2, w2) \<Rightarrow> (True, c2, w2, tr @ [Set_state b r]))))"
    using assms(1) by (simp add: flash_def toggles3 Let_def)
  obtain ok c1 w1 tr where
    i: "issue_in_order T E 1 [True, False, True, False, True, False] c w = (ok, c1, w1, tr)"
    by (cases "issue_in_order T E 1 [True, False, True, False, True, False] c w") auto
  have len6: "length [True, False, True, False, True, False] = 6" by simp
  have 2: "(case issue_in_order T E 1 [True, False, True, False, True, False] c w of
        (ok, c1, w1, tr) \<Rightarrow>
          (ok \<and> set_state_calls tr = [True, False, True, False, True, False] \<and>
             set_state_results tr = replicate 6 True) \<or>
          (\<not> ok \<and> (\<exists>m<6.
             set_state_calls tr = take (Suc m) [True, False, True, False, True, False] \<and>
             set_state_results tr = replicate m True @ [False])))"
    unfolding i prod.case by (rule issue_in_order_trace[OF i, unfolded len6])
  show ?thesis using 1 2 by (rule conjI)
qed

text \<open>
  On a device that records the commands it receives, with the switch last seen on: the
  device receives the six toggles and the restoring command; on a device that answers
  nothing, the first call fails after its reconnection attempts and is the only one.
\<close>

theorem flash_three_times_witness:
  "(cloud (connected_at 1000 (Some True)) \<or> device (connected_at 1000 (Some True))) \<and>
   1 \<le> sleep_limit recording_os \<and>
   flash recording_tuya recording_os 3 1 (connected_at 1000 (Some True)) []
     = (True, connected_at 1000 (Some True),
        [Sent True, Sent False, Sent True, Sent False, Sent True, Sent False, Sent True],
        [Set_state True True, Wait 1, Set_state False True, Wait 1,
         Set_state True True, Wait 1, Set_state False True, Wait 1,
         Set_state True True, Wait 1, Set_state False True, Wait 1,
         Set_state True True]) \<and>
   flash dead_tuya quiet_os 3 1 (connected_at 1000 (Some True)) ()
     = (False, (connected_at 1000 (Some True))\<lparr>connection_verified := False\<rparr>, (),
        [Set_state True False])"
proof -
  have h: "cloud (connected_at 1000 (Some True)) \<or> device (connected_at 1000 (Some True))"
    by (simp add: connected_at_def)
  have l: "1 \<le> sleep_limit recording_os" "1 \<le> sleep_limit quiet_os"
    by (simp_all add: quiet_os_def recording_os_def)
  have a: "issue_in_order recording_tuya recording_os 1 [True, False, True, False, True, False]
      (connected_at 1000 (Some True)) []
    = (True, connected_at 1000 (Some False),
       [Sent True, Sent False, Sent True, Sent False, Sent True, Sent False],
       [Set_state True True, Wait 1, Set_state False True, Wait 1,
        Set_state True True, Wait 1, Set_state False True, Wait 1,
        Set_state True True, Wait 1, Set_state False True, Wait 1])"
    by (simp add: controller_run)
  have b: "set_state recording_tuya recording_os True (connected_at 1000 (Some False))
      [Sent True, Sent False, Sent True, Sent False, Sent True, Sent False]
    = (True, connected_at 1000 (Some True),
       [Sent True, Sent False, Sent True, Sent False, Sent True, Sent False, Sent True])"
    by (simp add: controller_run)
  have c: "issue_in_order dead_tuya quiet_os 1 [True, False, True, False, True, False]
      (connected_at 1000 (Some True)) ()
    = (False, (connected_at 1000 (Some True))\<lparr>connection_verified := False\<rparr>, (),
       [Set_state True False])"
    by (simp add: controller_run)
  have t: "last_state (connected_at 1000 (Some True)) = Some True"
    by (simp add: connected_at_def)
  have r1: "flash recording_tuya recording_os 3 1 (connected_at 1000 (Some True)) []
     = (True, connected_at 1000 (Some True),
        [Sent True, Sent False, Sent True, Sent False, Sent True, Sent False, Sent True],
        [Set_state True True, Wait 1, Set_state False True, Wait 1,
         Set_state True True, Wait 1, Set_state False True, Wait 1,
         Set_state True True, Wait 1, Set_state False True, Wait 1,
         Set_state True True])"
    using flash_three_times[OF h l(1), of recording_tuya "[]"] unfolding a t
    by (simp add: b)
  have r2: "flash dead_tuya quiet_os 3 1 (connected_at 1000 (Some True)) ()
     = (False, (connected_at 1000 (Some True))\<lparr>connection_verified := False\<rparr>, (),
        [Set_state True False])"
    using flash_three_times[OF h l(2), of dead_tuya "()"] unfolding c
    by simp
  show ?thesis using h l(1) r1 r2 by simp
qed

text \<open>
  C4 as stated fails: with the switch last seen off and every call succeeding, the state
  before the flash is the state of the final toggle, and \<open>flash\<close> still issues a seventh,
  restoring call, which the device receives.
\<close>

theorem flash_restores_unchanged_state:
  "last_state (connected_at 1000 (Some False)) = Some False \<and>
   flash recording_tuya recording_os 3 1 (connected_at 1000 (Some False)) []
     = (True, connected_at 1000 (Some False),
        [Sent True, Sent False, Sent True, Sent False, Sent True, Sent False, Sent False],
        [Set_state True True, Wait 1, Set_state False True, Wait 1,
         Set_state True True, Wait 1, Set_state False True, Wait 1,
         Set_state True True, Wait 1, Set_state False True, Wait 1,
         Set_state False True])"
  by (simp add: controller_run)

text \<open>
  C10. Without a cloud handle and without a device handle, \<open>flash\<close> returns False at once:
  no call of \<open>set_state\<close>, and the controller, its last known state included, and the world
  are as before.
\<close>

theorem flash_without_handle:
  assumes "\<not> cloud c" and "\<not> device c"
  shows "flash T E ntimes duration c w = (False, c, w, [])"
  using assms by (simp add: flash_def)

theorem flash_without_handle_witness:
  "\<not> cloud tuya_init \<and> \<not> device tuya_init \<and>
   flash good_tuya quiet_os 3 1 tuya_init () = (False, tuya_init, (), [])"
proof -
  have h: "\<not> cloud tuya_init" "\<not> device tuya_init" by (simp_all add: tuya_init_def)
  show ?thesis using flash_without_handle[OF h, of good_tuya quiet_os 3 1 "()"] h by simp
qed


section \<open>Properties of connection health\<close>

text \<open>A result of the retry loop is a result of \<open>func\<close>: induction on the attempts.\<close>

lemma retry_loop_Inr:
  "retry_loop E func n i m xs c w = (Inr v, c', w', tr) \<Longrightarrow>
   \<exists>c0 w0. func c0 w0 = (Inr v, c', w')"
proof (induction xs arbitrary: c w tr)
  case Nil
  then show ?case by simp
next
  case (Cons a xs)
  show ?case
  proof (cases "func c w")
    case (fields r c1 w1)
    show ?thesis
    proof (cases r)
      case (Inr x)
      with Cons.prems fields show ?thesis by auto
    next
      case (Inl e)
      with Cons.prems fields Cons.IH show ?thesis
        by (auto simp: Let_def split: if_splits prod.splits sum.splits)
    qed
  qed
qed

lemma connect_func_marks:
  "connect_func T E c w = (Inr r, c', w') \<Longrightarrow>
   r \<and> connection_verified c' \<and> last_successful_connection c' = Some (time_time E w')"
  by (auto simp: connect_func_def Let_def split: if_splits prod.splits sum.splits option.splits)

text \<open>A successful \<open>connect\<close> marks the connection verified at the time it returns.\<close>

lemma connect_marks_verified:
  assumes "connect T E c w = (True, c', w')"
  shows "connection_verified c' \<and> last_successful_connection c' = Some (time_time E w')"
proof -
  obtain r c1 w1 tr where
    rt: "retry_with_exponential_backoff E (connect_func T E) 3 1 60 c w = (r, c1, w1, tr)"
    by (cases "retry_with_exponential_backoff E (connect_func T E) 3 1 60 c w") auto
  with assms obtain v where "r = Inr v" "c1 = c'" "w1 = w'"
    by (cases r) (auto simp: connect_def)
  with rt obtain c0 w0 where "connect_func T E c0 w0 = (Inr v, c', w')"
    unfolding retry_with_exponential_backoff_def by (blast dest: retry_loop_Inr)
  then show ?thesis by (blast dest: connect_func_marks)
qed

lemma authenticate_func_marks:
  "authenticate_func G E g w = (Inr r, g', w') \<Longrightarrow>
   r \<and> service g' \<and> last_successful_auth g' = Some (time_time E w')"
  by (auto simp: authenticate_func_def split: if_splits prod.splits sum.splits option.splits)

text \<open>A successful \<open>authenticate\<close> sets the service and the time of the authentication.\<close>

lemma authenticate_marks_verified:
  assumes "authenticate G E g w = (True, g', w')"
  shows "service g' \<and> last_successful_auth g' = Some (time_time E w')"
proof -
  obtain r g1 w1 tr where
    rt: "retry_with_exponential_backoff E (authenticate_func G E) 3 1 60 g w = (r, g1, w1, tr)"
    by (cases "retry_with_exponential_backoff E (authenticate_func G E) 3 1 60 g w") auto
  with assms obtain v where "r = Inr v" "g1 = g'" "w1 = w'"
    by (cases r) (auto simp: authenticate_def)
  with rt obtain g0 w0 where "authenticate_func G E g0 w0 = (Inr v, g', w')"
    unfolding retry_with_exponential_backoff_def by (blast dest: retry_loop_Inr)
  then show ?thesis by (blast dest: authenticate_func_marks)
qed




section \<open>Properties of the calendar monitor\<close>







lemmas calendar_run = is_busy_soon_def is_currently_busy_def ensure_authenticated_def
  needs_reauth_def authenticate_def authenticate_func_def load_token_def renew_credentials_def
  check_busy_soon_def check_currently_busy_def retry_with_exponential_backoff_def sleep_def
  backoff_delay_quiet good_google_def no_google_def quiet_os_def authenticated_at_def gcal_init_def mk_event_def
  get_transparency_def get_summary_def upt_conv_Cons



text \<open>
  C7, as the code has it. When \<open>ensure_authenticated\<close> fails, \<open>is_busy_soon\<close> and
  \<open>is_currently_busy\<close> both return False together with the string
  \<^verbatim>\<open>"Authentication failed"\<close> in the place of the event summary.
\<close>

theorem auth_failure_result:
  assumes "fst (ensure_authenticated G E g w) = False"
  shows "fst (is_busy_soon G E lead g w) = (False, Some ''Authentication failed'') \<and>
         fst (is_currently_busy G E g w) = (False, Some ''Authentication failed'')"
proof -
  obtain g1 w1 where "ensure_authenticated G E g w = (False, g1, w1)"
    using assms by (cases "ensure_authenticated G E g w") auto
  then show ?thesis by (simp add: is_busy_soon_def is_currently_busy_def)
qed

theorem auth_failure_result_witness:
  "fst (ensure_authenticated no_google quiet_os gcal_init ()) = False \<and>
   fst (is_busy_soon no_google quiet_os 2 gcal_init ()) = (False, Some ''Authentication failed'') \<and>
   fst (is_currently_busy no_google quiet_os gcal_init ())
     = (False, Some ''Authentication failed'')"
proof -
  have h: "fst (ensure_authenticated no_google quiet_os gcal_init ()) = False"
    by (simp add: calendar_run)
  show ?thesis using auth_failure_result[OF h, of 2] h by simp
qed

text \<open>
  C7 as stated fails: without a token and without a credentials file authentication fails,
  and the second component of both results carries a value.
\<close>

theorem auth_failure_summary_not_none:
  "fst (ensure_authenticated no_google quiet_os gcal_init ()) = False \<and>
   snd (fst (is_busy_soon no_google quiet_os 2 gcal_init ())) \<noteq> None \<and>
   snd (fst (is_currently_busy no_google quiet_os gcal_init ())) \<noteq> None"
  by (simp add: calendar_run)


section \<open>Properties of the service\<close>

lemma switch_calls_append [simp]: "switch_calls (xs @ ys) = switch_calls xs @ switch_calls ys"
  by (induction xs rule: switch_calls.induct) auto

lemma decisions_append [simp]: "decisions (xs @ ys) = decisions xs @ decisions ys"
  by (induction xs rule: decisions.induct) auto

lemma start_error_flash_quiet:
  "start_error_flash E s w = (s1, w1, tr) \<Longrightarrow>
   is_busy s1 = is_busy s \<and> poll_interval s1 = poll_interval s \<and>
   switch_calls tr = [] \<and> decisions tr = []"
  by (auto simp: start_error_flash_def split: if_splits)




lemma on_error_quiet:
  "on_error E e tv s w tr = (out, tv1, s1, w1, tr') \<Longrightarrow>
   is_busy s1 = is_busy s \<and> switch_calls tr' = switch_calls tr \<and> decisions tr' = decisions tr \<and>
   out \<noteq> Completed"
  by (auto simp: on_error_def split: prod.splits sum.splits dest: start_error_flash_quiet)


lemmas service_run = tick_def check_network_def check_calendar_def on_error_def
  is_network_available_def wait_for_network_def start_error_flash_def stop_error_flash_def
  start_heartbeat_monitor_def log_daily_events_def get_todays_events_def py_or_def
  service_at_def service_init_def flashing_os_def two_events_def tracking_init_def
  startup_sequence_def run_def tuya_init_def



text \<open>
  The calendar check is its first part, then \<open>stop_error_flash\<close>, then the sleep until the
  next minute.
\<close>

lemma check_calendar_split:
  "check_calendar T G E tv s w =
     (case decide_and_switch T G E s w of (d, tv1, s2, w4, tr1) \<Rightarrow>
        (case stop_error_flash E s2 w4 of (s3, w5, tr2) \<Rightarrow>
           (case sleep E (60 - now_second E w5) w5 of
              (Inl e, w6) \<Rightarrow> (Inl e, tv1, s3, w6, tr1 @ tr2)
            | (Inr u, w6) \<Rightarrow> (Inr (), tv1, s3, w6, tr1 @ tr2))))"
  by (simp add: check_calendar_def decide_and_switch_def Let_def split: prod.splits sum.splits)

lemma decide_and_switch_trace:
  assumes "decide_and_switch T G E s w = (d, tv1, s2, w2, tr)"
  shows "tr = Decides d # (if d \<noteq> is_busy s then [Calls_set_state d] else [])"
    and "error_flash_thread s2 = error_flash_thread s"
    and "d \<noteq> is_busy s \<Longrightarrow>
           is_busy s2 = d \<and> (\<exists>w3 r. set_state T E d (tuya s) w3 = (r, tuya s2, w2))"
    and "d = is_busy s \<Longrightarrow> is_busy s2 = d \<and> tuya s2 = tuya s"
proof -
  obtain bs es g1 w1 where q1: "is_busy_soon G E (lead_time s) (calendar s)
      (log_daily_events G E s w) = ((bs, es), g1, w1)"
    by (cases "is_busy_soon G E (lead_time s) (calendar s) (log_daily_events G E s w)") auto
  obtain cb ce g2 w3 where q2: "is_currently_busy G E g1 w1 = ((cb, ce), g2, w3)"
    by (cases "is_currently_busy G E g1 w1") auto
  obtain r t1 w4 where ss: "set_state T E (bs \<or> cb) (tuya s) w3 = (r, t1, w4)"
    by (cases "set_state T E (bs \<or> cb) (tuya s) w3") auto
  have d: "d = (bs \<or> cb)"
    using assms q1 q2 by (auto simp: decide_and_switch_def Let_def split: prod.splits if_splits)
  show "tr = Decides d # (if d \<noteq> is_busy s then [Calls_set_state d] else [])"
    using assms q1 q2 by (auto simp: decide_and_switch_def Let_def split: prod.splits if_splits)
  show "error_flash_thread s2 = error_flash_thread s"
    using assms q1 q2 by (auto simp: decide_and_switch_def Let_def split: prod.splits if_splits)
  show "is_busy s2 = d \<and> tuya s2 = tuya s" if "d = is_busy s"
    using that assms q1 q2
    by (auto simp: decide_and_switch_def Let_def split: prod.splits if_splits)
  show "is_busy s2 = d \<and> (\<exists>w3 r. set_state T E d (tuya s) w3 = (r, tuya s2, w2))"
    if "d \<noteq> is_busy s"
  proof -
    have "s2 = s\<lparr>calendar := g2, is_busy := d, tuya := t1\<rparr> \<and> w2 = w4"
      using that assms q1 q2 ss d
      by (cases "bs \<or> cb") (auto simp: decide_and_switch_def Let_def)
    then have "is_busy s2 = d" "set_state T E d (tuya s) w3 = (r, tuya s2, w2)"
      using ss d by simp_all
    then show ?thesis by blast
  qed
qed

lemma check_network_go:
  "check_network T G E fuel s w = (Some (Inr True), s0, w0, tr) \<Longrightarrow>
   tr = [] \<and> is_busy s0 = is_busy s \<and> error_flash_thread s0 = error_flash_thread s"
  by (auto simp: check_network_def split: prod.splits bool.splits option.splits sum.splits)

lemma sleep_Inr: "sleep E d w = (Inr u, w') \<Longrightarrow> w' = time_sleep E d w"
  by (auto simp: sleep_def split: if_splits)

text \<open>
  A run of the body that completes has passed the network check, then the first part of
  the calendar check, then \<open>stop_error_flash\<close> and the sleep, which did not raise.
\<close>

lemma tick_completed:
  assumes "tick T G E fuel tv s w = Some (Completed, tv1, s1, w1, tr)"
  shows "\<exists>s0 w0 d s2 w2 tr2 s3 w3 tr3.
     check_network T G E fuel s w = (Some (Inr True), s0, w0, []) \<and>
     decide_and_switch T G E s0 w0 = (d, tv1, s2, w2, tr2) \<and>
     stop_error_flash E s2 w2 = (s3, w3, tr3) \<and>
     s1 = s3 \<and> w1 = time_sleep E (60 - now_second E w3) w3 \<and> tr = tr2 @ tr3"
proof -
  obtain r s0 w0 tr0 where n: "check_network T G E fuel s w = (r, s0, w0, tr0)"
    by (cases "check_network T G E fuel s w") auto
  show ?thesis
  proof (cases r)
    case None
    with n assms show ?thesis by (simp add: tick_def)
  next
    case (Some x)
    show ?thesis
    proof (cases x)
      case (Inl e)
      with Some n assms have "on_error E e tv s0 w0 tr0 = (Completed, tv1, s1, w1, tr)"
        by (simp add: tick_def)
      from on_error_quiet[OF this] show ?thesis by simp
    next
      case (Inr b)
      show ?thesis
      proof (cases b)
        case False
        with Inr Some n assms show ?thesis by (simp add: tick_def)
      next
        case True
        have n': "check_network T G E fuel s w = (Some (Inr True), s0, w0, tr0)"
          using n Some Inr True by simp
        have tr0: "tr0 = []" using check_network_go[OF n'] by simp
        obtain d tv2 s2 w2 tr2 where ds: "decide_and_switch T G E s0 w0 = (d, tv2, s2, w2, tr2)"
          by (cases "decide_and_switch T G E s0 w0") auto
        obtain s3 w3 tr3 where st: "stop_error_flash E s2 w2 = (s3, w3, tr3)"
          by (cases "stop_error_flash E s2 w2") auto
        obtain x2 w6 where sl: "sleep E (60 - now_second E w3) w3 = (x2, w6)"
          by (cases "sleep E (60 - now_second E w3) w3") auto
        show ?thesis
        proof (cases x2)
          case (Inl e)
          have "check_calendar T G E tv s0 w0 = (Inl e, tv2, s3, w6, tr2 @ tr3)"
            using ds st sl Inl by (simp add: check_calendar_split)
          with n' assms
          have "on_error E e tv2 s3 w6 (tr0 @ tr2 @ tr3) = (Completed, tv1, s1, w1, tr)"
            by (simp add: tick_def)
          from on_error_quiet[OF this] show ?thesis by simp
        next
          case (Inr u)
          have "check_calendar T G E tv s0 w0 = (Inr (), tv2, s3, w6, tr2 @ tr3)"
            using ds st sl Inr by (simp add: check_calendar_split)
          with n' assms tr0
          have e: "tv1 = tv2" "s1 = s3" "w1 = w6" "tr = tr2 @ tr3" by (simp_all add: tick_def)
          have w6: "w6 = time_sleep E (60 - now_second E w3) w3"
            using sl Inr by (simp add: sleep_Inr)
          have "check_network T G E fuel s w = (Some (Inr True), s0, w0, []) \<and>
            decide_and_switch T G E s0 w0 = (d, tv1, s2, w2, tr2) \<and>
            stop_error_flash E s2 w2 = (s3, w3, tr3) \<and>
            s1 = s3 \<and> w1 = time_sleep E (60 - now_second E w3) w3 \<and> tr = tr2 @ tr3"
            using n' tr0 ds st e w6 by simp
          then show ?thesis by blast
        qed
      qed
    qed
  qed
qed

text \<open>
  C8, as the code has it. A run of the loop body that completes its check has passed the
  network check and then decided; if the decision \<open>d\<close> differs from \<open>is_busy\<close> it has called
  \<open>set_state(d)\<close>, and the world \<open>w2\<close> that call left (the world after the two queries, if
  there was no call) is the one in which the body comes to \<open>stop_error_flash\<close>. Only there
  is the error flash stopped: exactly when the service has an error-flash thread and that
  thread is alive in \<open>w2\<close>, the stop event is set and the thread joined, after the call and
  never before it; otherwise nothing is stopped. The body then sleeps to the next minute.
\<close>

theorem set_state_before_stop_error_flash:
  assumes "tick T G E fuel tv s w = Some (Completed, tv1, s1, w1, tr)"
  shows "\<exists>s0 w0 d s2 w2.
     check_network T G E fuel s w = (Some (Inr True), s0, w0, []) \<and>
     decide_and_switch T G E s0 w0 =
       (d, tv1, s2, w2, Decides d # (if d \<noteq> is_busy s then [Calls_set_state d] else [])) \<and>
     (d \<noteq> is_busy s \<longrightarrow>
        is_busy s2 = d \<and> (\<exists>w3 r. set_state T E d (tuya s0) w3 = (r, tuya s2, w2))) \<and>
     (d = is_busy s \<longrightarrow> is_busy s2 = d \<and> tuya s2 = tuya s0) \<and>
     (if error_flash_thread s \<and> is_alive E Error_flash_thread w2
      then tr = Decides d # (if d \<noteq> is_busy s then [Calls_set_state d] else [])
                  @ [Stops_error_flash] \<and>
           s1 = s2\<lparr>error_stop_event := True\<rparr> \<and>
           w1 = time_sleep E (60 - now_second E (thread_join E Error_flash_thread w2))
                  (thread_join E Error_flash_thread w2)
      else tr = Decides d # (if d \<noteq> is_busy s then [Calls_set_state d] else []) \<and>
           s1 = s2 \<and> w1 = time_sleep E (60 - now_second E w2) w2)"
proof -
  from tick_completed[OF assms] obtain s0 w0 d s2 w2 tr2 s3 w3 tr3 where
    n: "check_network T G E fuel s w = (Some (Inr True), s0, w0, [])" and
    ds: "decide_and_switch T G E s0 w0 = (d, tv1, s2, w2, tr2)" and
    st: "stop_error_flash E s2 w2 = (s3, w3, tr3)" and
    e: "s1 = s3" "w1 = time_sleep E (60 - now_second E w3) w3" "tr = tr2 @ tr3"
    by blast
  note g = check_network_go[OF n]
  have b: "is_busy s0 = is_busy s" and f0: "error_flash_thread s0 = error_flash_thread s"
    using g by simp_all
  have tr2: "tr2 = Decides d # (if d \<noteq> is_busy s then [Calls_set_state d] else [])"
    using decide_and_switch_trace(1)[OF ds] b by simp
  have f2: "error_flash_thread s2 = error_flash_thread s"
    using decide_and_switch_trace(2)[OF ds] f0 by simp
  have c1: "d \<noteq> is_busy s \<longrightarrow>
      is_busy s2 = d \<and> (\<exists>w3 r. set_state T E d (tuya s0) w3 = (r, tuya s2, w2))"
    using decide_and_switch_trace(3)[OF ds] b by simp
  have c2: "d = is_busy s \<longrightarrow> is_busy s2 = d \<and> tuya s2 = tuya s0"
    using decide_and_switch_trace(4)[OF ds] b by simp
  have c3: "if error_flash_thread s \<and> is_alive E Error_flash_thread w2
      then tr = Decides d # (if d \<noteq> is_busy s then [Calls_set_state d] else [])
                  @ [Stops_error_flash] \<and>
           s1 = s2\<lparr>error_stop_event := True\<rparr> \<and>
           w1 = time_sleep E (60 - now_second E (thread_join E Error_flash_thread w2))
                  (thread_join E Error_flash_thread w2)
      else tr = Decides d # (if d \<noteq> is_busy s then [Calls_set_state d] else []) \<and>
           s1 = s2 \<and> w1 = time_sleep E (60 - now_second E w2) w2"
  proof (cases "error_flash_thread s \<and> is_alive E Error_flash_thread w2")
    case True
    then have "s3 = s2\<lparr>error_stop_event := True\<rparr>" "w3 = thread_join E Error_flash_thread w2"
      "tr3 = [Stops_error_flash]"
      using st f2 by (simp_all add: stop_error_flash_def)
    with True e tr2 show ?thesis by simp
  next
    case False
    then have "s3 = s2" "w3 = w2" "tr3 = []"
      using st f2 by (auto simp: stop_error_flash_def)
    with False e tr2 show ?thesis by simp
  qed
  have "check_network T G E fuel s w = (Some (Inr True), s0, w0, []) \<and>
     decide_and_switch T G E s0 w0 =
       (d, tv1, s2, w2, Decides d # (if d \<noteq> is_busy s then [Calls_set_state d] else [])) \<and>
     (d \<noteq> is_busy s \<longrightarrow>
        is_busy s2 = d \<and> (\<exists>w3 r. set_state T E d (tuya s0) w3 = (r, tuya s2, w2))) \<and>
     (d = is_busy s \<longrightarrow> is_busy s2 = d \<and> tuya s2 = tuya s0) \<and>
     (if error_flash_thread s \<and> is_alive E Error_flash_thread w2
      then tr = Decides d # (if d \<noteq> is_busy s then [Calls_set_state d] else [])
                  @ [Stops_error_flash] \<and>
           s1 = s2\<lparr>error_stop_event := True\<rparr> \<and>
           w1 = time_sleep E (60 - now_second E (thread_join E Error_flash_thread w2))
                  (thread_join E Error_flash_thread w2)
      else tr = Decides d # (if d \<noteq> is_busy s then [Calls_set_state d] else []) \<and>
           s1 = s2 \<and> w1 = time_sleep E (60 - now_second E w2) w2)"
    using n ds[unfolded tr2] c1 c2 c3 by (intro conjI)
  then show ?thesis by blast
qed

text \<open>
  On the recording world, with the error-flash thread started and the light on while the
  calendar is empty: the device receives the command, and the thread is joined after it.
  Without an error-flash thread nothing is stopped.
\<close>

theorem set_state_before_stop_error_flash_witness:
  "tick recording_tuya (good_google []) recording_os 5 tracking_init
     ((service_at 1000 True)\<lparr>is_busy := True\<rparr>) [Started Error_flash_thread]
     = Some (Completed, \<lparr>previous_busy_state = False, previous_event_name = None\<rparr>,
         (service_at 1000 True)\<lparr>tuya := connected_at 1000 (Some False), is_busy := False,
            error_stop_event := True\<rparr>,
         [Started Error_flash_thread, Sent False, Joined Error_flash_thread],
         [Decides False, Calls_set_state False, Stops_error_flash]) \<and>
   decide_and_switch recording_tuya (good_google []) recording_os
     ((service_at 1000 True)\<lparr>is_busy := True\<rparr>) [Started Error_flash_thread]
     = (False, \<lparr>previous_busy_state = False, previous_event_name = None\<rparr>,
        (service_at 1000 True)\<lparr>tuya := connected_at 1000 (Some False), is_busy := False\<rparr>,
        [Started Error_flash_thread, Sent False], [Decides False, Calls_set_state False]) \<and>
   is_alive recording_os Error_flash_thread [Started Error_flash_thread, Sent False] \<and>
   tick recording_tuya (good_google []) recording_os 5 tracking_init
     ((service_at 1000 False)\<lparr>is_busy := True\<rparr>) []
     = Some (Completed, \<lparr>previous_busy_state = False, previous_event_name = None\<rparr>,
         (service_at 1000 False)\<lparr>tuya := connected_at 1000 (Some False), is_busy := False\<rparr>,
         [Sent False], [Decides False, Calls_set_state False]) \<and>
   (\<exists>s0 w0 d s2 w2.
      check_network recording_tuya (good_google []) recording_os 5
        ((service_at 1000 True)\<lparr>is_busy := True\<rparr>) [Started Error_flash_thread]
        = (Some (Inr True), s0, w0, []) \<and>
      decide_and_switch recording_tuya (good_google []) recording_os s0 w0 =
        (d, \<lparr>previous_busy_state = False, previous_event_name = None\<rparr>, s2, w2,
         Decides d #
         (if d \<noteq> is_busy ((service_at 1000 True)\<lparr>is_busy := True\<rparr>)
          then [Calls_set_state d] else [])) \<and>
      (d \<noteq> is_busy ((service_at 1000 True)\<lparr>is_busy := True\<rparr>) \<longrightarrow>
         is_busy s2 = d \<and>
         (\<exists>w3 r. set_state recording_tuya recording_os d (tuya s0) w3 = (r, tuya s2, w2))) \<and>
      (d = is_busy ((service_at 1000 True)\<lparr>is_busy := True\<rparr>) \<longrightarrow>
         is_busy s2 = d \<and> tuya s2 = tuya s0) \<and>
      (if error_flash_thread ((service_at 1000 True)\<lparr>is_busy := True\<rparr>) \<and>
          is_alive recording_os Error_flash_thread w2
       then [Decides False, Calls_set_state False, Stops_error_flash] =
              Decides d #
              (if d \<noteq> is_busy ((service_at 1000 True)\<lparr>is_busy := True\<rparr>)
               then [Calls_set_state d] else []) @ [Stops_error_flash] \<and>
            (service_at 1000 True)\<lparr>tuya := connected_at 1000 (Some False), is_busy := False,
               error_stop_event := True\<rparr> = s2\<lparr>error_stop_event := True\<rparr> \<and>
            [Started Error_flash_thread, Sent False, Joined Error_flash_thread] =
              time_sleep recording_os
                (60 - now_second recording_os (thread_join recording_os Error_flash_thread w2))
                (thread_join recording_os Error_flash_thread w2)
       else [Decides False, Calls_set_state False, Stops_error_flash] =
              Decides d #
              (if d \<noteq> is_busy ((service_at 1000 True)\<lparr>is_busy := True\<rparr>)
               then [Calls_set_state d] else []) \<and>
            (service_at 1000 True)\<lparr>tuya := connected_at 1000 (Some False), is_busy := False,
               error_stop_event := True\<rparr> = s2 \<and>
            [Started Error_flash_thread, Sent False, Joined Error_flash_thread] =
              time_sleep recording_os (60 - now_second recording_os w2) w2))"
proof -
  have a: "tick recording_tuya (good_google []) recording_os 5 tracking_init
     ((service_at 1000 True)\<lparr>is_busy := True\<rparr>) [Started Error_flash_thread]
     = Some (Completed, \<lparr>previous_busy_state = False, previous_event_name = None\<rparr>,
         (service_at 1000 True)\<lparr>tuya := connected_at 1000 (Some False), is_busy := False,
            error_stop_event := True\<rparr>,
         [Started Error_flash_thread, Sent False, Joined Error_flash_thread],
         [Decides False, Calls_set_state False, Stops_error_flash])"
    by (simp add: service_run calendar_run controller_run)
  have b: "decide_and_switch recording_tuya (good_google []) recording_os
     ((service_at 1000 True)\<lparr>is_busy := True\<rparr>) [Started Error_flash_thread]
     = (False, \<lparr>previous_busy_state = False, previous_event_name = None\<rparr>,
        (service_at 1000 True)\<lparr>tuya := connected_at 1000 (Some False), is_busy := False\<rparr>,
        [Started Error_flash_thread, Sent False], [Decides False, Calls_set_state False])"
    by (simp add: decide_and_switch_def service_run calendar_run controller_run)
  have c: "is_alive recording_os Error_flash_thread [Started Error_flash_thread, Sent False]"
    by (simp add: recording_os_def)
  have d: "tick recording_tuya (good_google []) recording_os 5 tracking_init
     ((service_at 1000 False)\<lparr>is_busy := True\<rparr>) []
     = Some (Completed, \<lparr>previous_busy_state = False, previous_event_name = None\<rparr>,
         (service_at 1000 False)\<lparr>tuya := connected_at 1000 (Some False), is_busy := False\<rparr>,
         [Sent False], [Decides False, Calls_set_state False])"
    by (simp add: service_run calendar_run controller_run)
  from set_state_before_stop_error_flash[OF a] a b c d show ?thesis by blast
qed

text \<open>
  C8 as stated fails: with the error-flash thread alive and the light to be switched on,
  the loop body calls \<open>set_state\<close> while the thread has not been stopped, and sets the stop
  event only afterwards.
\<close>

theorem error_flash_stopped_after_set_state:
  "error_flash_thread (service_at 1000 True) \<and>
   is_alive flashing_os Error_flash_thread () \<and>
   \<not> error_stop_event (service_at 1000 True) \<and>
   tick good_tuya (good_google two_events) flashing_os 5 tracking_init (service_at 1000 True) ()
     = Some (Completed, \<lparr>previous_busy_state = True, previous_event_name = Some ''Standup''\<rparr>,
         (service_at 1000 True)\<lparr>tuya := connected_at 1000 (Some True), is_busy := True,
            error_stop_event := True\<rparr>, (),
         [Decides True, Calls_set_state True, Stops_error_flash])"
  by (simp add: service_run calendar_run controller_run)

lemma startup_sequence_connect_fails:
  "connect T E (tuya s) w = (False, t1, w1) \<Longrightarrow>
   startup_sequence T G E s w = (False, s\<lparr>tuya := t1\<rparr>, w1, [])"
  by (simp add: startup_sequence_def)

lemma startup_sequence_authenticate_fails:
  "connect T E (tuya s) w = (True, t1, w1) \<Longrightarrow>
   authenticate G E (calendar s) w1 = (False, g1, w2) \<Longrightarrow>
   startup_sequence T G E s w = (False, s\<lparr>tuya := t1, calendar := g1\<rparr>, w2, [])"
  by (simp add: startup_sequence_def)

lemma startup_sequence_succeeds:
  "connect T E (tuya s) w = (True, t1, w1) \<Longrightarrow>
   authenticate G E (calendar s) w1 = (True, g1, w2) \<Longrightarrow>
   \<exists>s1 w3 tr1. startup_sequence T G E s w = (True, s1, w3, tr1) \<and>
     heartbeat_thread s1 = heartbeat_thread s"
  by (auto simp: startup_sequence_def Let_def split: prod.splits if_splits)

lemma run_loop_outcome:
  "run_loop T G E fuel n tv s w = (out, s', w', tr) \<Longrightarrow> out \<noteq> Startup_failed"
proof (induction n arbitrary: tv s w out s' w' tr)
  case 0
  then show ?case by auto
next
  case (Suc n)
  show ?case
  proof (cases "running s")
    case False
    with Suc.prems show ?thesis by auto
  next
    case True
    show ?thesis
    proof (cases "tick T G E fuel tv s w")
      case None
      with True Suc.prems show ?thesis by auto
    next
      case (Some res)
      obtain o1 tv1 s1 w1 tr1 where res: "res = (o1, tv1, s1, w1, tr1)" by (cases res) auto
      obtain r s2 w2 tr2 where rl: "run_loop T G E fuel n tv1 s1 w1 = (r, s2, w2, tr2)"
        by (cases "run_loop T G E fuel n tv1 s1 w1") auto
      from Suc.IH[OF rl] have "r \<noteq> Startup_failed" .
      with True Some res rl Suc.prems show ?thesis
        by (cases o1) auto
    qed
  qed
qed

text \<open>
  C9. From a service with no error-flash thread and no heartbeat thread yet, as \<^verbatim>\<open>__init__\<close>
  leaves it, on a platform whose \<^verbatim>\<open>time.sleep\<close> takes the seconds to the next minute. If
  \<open>connect\<close> returns False, or \<open>authenticate\<close>, called after a successful \<open>connect\<close>, returns
  False, then \<open>run\<close> starts the error-flash thread in the world that failed call left and
  returns: nothing else is done to the service or the world, the heartbeat is not started,
  the loop is not reached and no call is made a second time. If both return True, \<open>run\<close>
  starts the heartbeat thread after the startup sequence, sleeps to the next minute and runs
  its loop, whose outcome is that of \<open>run\<close>, never the one of a failed startup.
\<close>

theorem startup_failure_only_way_out:
  assumes "\<not> error_flash_thread s" and "\<not> heartbeat_thread s"
    and "\<And>w. 60 - now_second E w \<le> sleep_limit E"
  shows
    "(connect T E (tuya s) w = (False, t1, w1) \<longrightarrow>
        run T G E fuel n s w =
          (Startup_failed,
           s\<lparr>tuya := t1, error_stop_event := False, error_flash_thread := True\<rparr>,
           thread_start E Error_flash_thread w1, [Starts_error_flash])) \<and>
     (connect T E (tuya s) w = (True, t1, w1) \<and>
      authenticate G E (calendar s) w1 = (False, g1, w2) \<longrightarrow>
        run T G E fuel n s w =
          (Startup_failed,
           s\<lparr>tuya := t1, calendar := g1, error_stop_event := False,
             error_flash_thread := True\<rparr>,
           thread_start E Error_flash_thread w2, [Starts_error_flash])) \<and>
     (connect T E (tuya s) w = (True, t1, w1) \<and>
      authenticate G E (calendar s) w1 = (True, g1, w2) \<longrightarrow>
        (\<exists>s1 w3 tr1.
           startup_sequence T G E s w = (True, s1, w3, tr1) \<and>
           run T G E fuel n s w =
             (let s2 = s1\<lparr>heartbeat_stop_event := False, heartbeat_thread := True\<rparr>;
                  w4 = thread_start E Heartbeat_thread w3;
                  w5 = (if 60 - now_second E w4 > 1
                        then time_sleep E (60 - now_second E w4) w4 else w4)
              in case run_loop T G E fuel n tracking_init s2 w5 of
                   (r, s3, w6, tr3) \<Rightarrow>
                     (r, s3, w6, tr1 @ Starts_heartbeat # Enters_loop # tr3)) \<and>
           fst (run T G E fuel n s w) \<noteq> Startup_failed))"
proof (intro conjI impI)
  assume c: "connect T E (tuya s) w = (False, t1, w1)"
  show "run T G E fuel n s w =
      (Startup_failed, s\<lparr>tuya := t1, error_stop_event := False, error_flash_thread := True\<rparr>,
       thread_start E Error_flash_thread w1, [Starts_error_flash])"
    using assms(1) by (simp add: run_def startup_sequence_connect_fails[OF c]
        start_error_flash_def)
next
  assume "connect T E (tuya s) w = (True, t1, w1) \<and>
    authenticate G E (calendar s) w1 = (False, g1, w2)"
  then have c: "connect T E (tuya s) w = (True, t1, w1)"
    and a: "authenticate G E (calendar s) w1 = (False, g1, w2)" by simp_all
  show "run T G E fuel n s w =
      (Startup_failed,
       s\<lparr>tuya := t1, calendar := g1, error_stop_event := False, error_flash_thread := True\<rparr>,
       thread_start E Error_flash_thread w2, [Starts_error_flash])"
    using assms(1) by (simp add: run_def startup_sequence_authenticate_fails[OF c a]
        start_error_flash_def)
next
  assume "connect T E (tuya s) w = (True, t1, w1) \<and>
    authenticate G E (calendar s) w1 = (True, g1, w2)"
  then have c: "connect T E (tuya s) w = (True, t1, w1)"
    and a: "authenticate G E (calendar s) w1 = (True, g1, w2)" by simp_all
  from startup_sequence_succeeds[OF c a] obtain s1 w3 tr1 where
    st: "startup_sequence T G E s w = (True, s1, w3, tr1)"
    and h: "heartbeat_thread s1 = heartbeat_thread s" by blast
  define s2 where "s2 = s1\<lparr>heartbeat_stop_event := False, heartbeat_thread := True\<rparr>"
  define w4 where "w4 = thread_start E Heartbeat_thread w3"
  define w5 where "w5 = (if 60 - now_second E w4 > 1
    then time_sleep E (60 - now_second E w4) w4 else w4)"
  have hb: "start_heartbeat_monitor E s1 w3 = (s2, w4, [Starts_heartbeat])"
    using h assms(2) by (simp add: start_heartbeat_monitor_def s2_def w4_def)
  have sl: "(if 60 - now_second E w4 > 1 then sleep E (60 - now_second E w4) w4
             else (Inr (), w4)) = (Inr (), w5)"
    using assms(3)[of w4] by (simp add: w5_def sleep_def)
  obtain r s3 w6 tr3 where rl: "run_loop T G E fuel n tracking_init s2 w5 = (r, s3, w6, tr3)"
    by (cases "run_loop T G E fuel n tracking_init s2 w5") auto
  have rl': "run_loop T G E fuel n
      \<lparr>previous_busy_state = False, previous_event_name = None\<rparr> s2 w5 = (r, s3, w6, tr3)"
    using rl by (simp add: tracking_init_def)
  have run: "run T G E fuel n s w = (r, s3, w6, tr1 @ Starts_heartbeat # Enters_loop # tr3)"
    unfolding run_def st prod.case bool.case hb Let_def sl sum.case rl' by simp
  have eq: "run T G E fuel n s w =
     (let s2 = s1\<lparr>heartbeat_stop_event := False, heartbeat_thread := True\<rparr>;
          w4 = thread_start E Heartbeat_thread w3;
          w5 = (if 60 - now_second E w4 > 1
                then time_sleep E (60 - now_second E w4) w4 else w4)
      in case run_loop T G E fuel n tracking_init s2 w5 of
           (r, s3, w6, tr3) \<Rightarrow> (r, s3, w6, tr1 @ Starts_heartbeat # Enters_loop # tr3))"
    unfolding Let_def s2_def[symmetric] w4_def[symmetric] w5_def[symmetric] rl prod.case
    by (rule run)
  have ne: "fst (run T G E fuel n s w) \<noteq> Startup_failed"
    using run run_loop_outcome[OF rl] by simp
  show "\<exists>s1 w3 tr1.
     startup_sequence T G E s w = (True, s1, w3, tr1) \<and>
     run T G E fuel n s w =
       (let s2 = s1\<lparr>heartbeat_stop_event := False, heartbeat_thread := True\<rparr>;
            w4 = thread_start E Heartbeat_thread w3;
            w5 = (if 60 - now_second E w4 > 1
                  then time_sleep E (60 - now_second E w4) w4 else w4)
        in case run_loop T G E fuel n tracking_init s2 w5 of
             (r, s3, w6, tr3) \<Rightarrow> (r, s3, w6, tr1 @ Starts_heartbeat # Enters_loop # tr3)) \<and>
     fst (run T G E fuel n s w) \<noteq> Startup_failed"
    using st eq ne by blast
qed

text \<open>
  On the recording world: a device that answers nothing, then a calendar without
  credentials, each leave the error-flash thread as the only thread started; with both in
  order the heartbeat thread is started after the startup flash and the loop is run.
\<close>

theorem startup_failure_only_way_out_witness:
  "\<not> error_flash_thread service_init \<and> \<not> heartbeat_thread service_init \<and>
   (\<forall>w. 60 - now_second recording_os w \<le> sleep_limit recording_os) \<and>
   connect dead_tuya recording_os (tuya service_init) []
     = (False, tuya_init\<lparr>cloud := True\<rparr>, []) \<and>
   run dead_tuya no_google recording_os 5 3 service_init []
     = (Startup_failed,
        service_init\<lparr>tuya := tuya_init\<lparr>cloud := True\<rparr>, error_stop_event := False,
          error_flash_thread := True\<rparr>,
        [Started Error_flash_thread], [Starts_error_flash]) \<and>
   connect recording_tuya recording_os (tuya service_init) []
     = (True, connected_at 1000 (Some False), []) \<and>
   authenticate no_google recording_os (calendar service_init) [] = (False, gcal_init, []) \<and>
   run recording_tuya no_google recording_os 5 3 service_init []
     = (Startup_failed,
        service_init\<lparr>tuya := connected_at 1000 (Some False), calendar := gcal_init,
          error_stop_event := False, error_flash_thread := True\<rparr>,
        [Started Error_flash_thread], [Starts_error_flash]) \<and>
   authenticate (good_google two_events) recording_os (calendar service_init) []
     = (True, authenticated_at 1000, []) \<and>
   run recording_tuya (good_google two_events) recording_os 5 1 service_init []
     = (Still_running,
        service_init\<lparr>tuya := connected_at 1000 (Some True),
          calendar := authenticated_at 1000, is_busy := True,
          heartbeat_stop_event := False, heartbeat_thread := True\<rparr>,
        [Sent True, Sent False, Sent True, Sent False, Sent True, Sent False, Sent False,
         Sent True, Started Heartbeat_thread],
        [Flashes
           [Set_state True True, Wait 1, Set_state False True, Wait 1,
            Set_state True True, Wait 1, Set_state False True, Wait 1,
            Set_state True True, Wait 1, Set_state False True, Wait 1,
            Set_state False True],
         Decides True, Calls_set_state True, Starts_heartbeat, Enters_loop, Decides True]) \<and>
   fst (run recording_tuya (good_google two_events) recording_os 5 1 service_init [])
     \<noteq> Startup_failed"
proof -
  have i: "\<not> error_flash_thread service_init" "\<not> heartbeat_thread service_init"
    by (simp_all add: service_init_def)
  have l: "\<And>w. 60 - now_second recording_os w \<le> sleep_limit recording_os"
    by (simp add: recording_os_def)
  have c1: "connect dead_tuya recording_os (tuya service_init) []
     = (False, tuya_init\<lparr>cloud := True\<rparr>, [])"
    by (simp add: service_run controller_run)
  have c2: "connect recording_tuya recording_os (tuya service_init) []
     = (True, connected_at 1000 (Some False), [])"
    by (simp add: service_run controller_run)
  have a2: "authenticate no_google recording_os (calendar service_init) []
     = (False, gcal_init, [])"
    by (simp add: service_run calendar_run retry_run)
  have a3: "authenticate (good_google two_events) recording_os (calendar service_init) []
     = (True, authenticated_at 1000, [])"
    by (simp add: service_run calendar_run retry_run)
  note t1 = startup_failure_only_way_out[OF i l,
      of dead_tuya "[]" "tuya_init\<lparr>cloud := True\<rparr>" "[]" no_google 5 3]
  note t2 = startup_failure_only_way_out[OF i l,
      of recording_tuya "[]" "connected_at 1000 (Some False)" "[]" no_google 5 3 gcal_init "[]"]
  note t3 = startup_failure_only_way_out[OF i l,
      of recording_tuya "[]" "connected_at 1000 (Some False)" "[]" "good_google two_events"
        5 1 "authenticated_at 1000" "[]"]
  have r1: "run dead_tuya no_google recording_os 5 3 service_init []
     = (Startup_failed,
        service_init\<lparr>tuya := tuya_init\<lparr>cloud := True\<rparr>, error_stop_event := False,
          error_flash_thread := True\<rparr>,
        [Started Error_flash_thread], [Starts_error_flash])"
    using t1 c1 by (simp add: recording_os_def)
  have r2: "run recording_tuya no_google recording_os 5 3 service_init []
     = (Startup_failed,
        service_init\<lparr>tuya := connected_at 1000 (Some False), calendar := gcal_init,
          error_stop_event := False, error_flash_thread := True\<rparr>,
        [Started Error_flash_thread], [Starts_error_flash])"
    using t2 c2 a2 by (simp add: recording_os_def)
  have r3: "fst (run recording_tuya (good_google two_events) recording_os 5 1 service_init [])
     \<noteq> Startup_failed"
    using t3 c2 a3 by blast
  have r4: "run recording_tuya (good_google two_events) recording_os 5 1 service_init []
     = (Still_running,
        service_init\<lparr>tuya := connected_at 1000 (Some True),
          calendar := authenticated_at 1000, is_busy := True,
          heartbeat_stop_event := False, heartbeat_thread := True\<rparr>,
        [Sent True, Sent False, Sent True, Sent False, Sent True, Sent False, Sent False,
         Sent True, Started Heartbeat_thread],
        [Flashes
           [Set_state True True, Wait 1, Set_state False True, Wait 1,
            Set_state True True, Wait 1, Set_state False True, Wait 1,
            Set_state True True, Wait 1, Set_state False True, Wait 1,
            Set_state False True],
         Decides True, Calls_set_state True, Starts_heartbeat, Enters_loop, Decides True])"
    by (simp add: service_run calendar_run controller_run)
  show ?thesis using i l c1 r1 c2 a2 r2 a3 r3 r4 by simp
qed

end
